theory Spec2Isabelle
  imports Complex_Main
begin

section \<open>Values and records of the EVM chain-state provider\<close>

text \<open>
  The provider (\<^verbatim>\<open>BaseEVMStateProvider\<close> in \<^verbatim>\<open>csp.ts\<close>) computes with JavaScript
  numbers, which are binary64 floating-point values. A finite number is modelled by
  the rational it denotes; a value that may be \<^verbatim>\<open>NaN\<close> or \<^verbatim>\<open>undefined\<close> is an
  \<open>option\<close> with \<open>None\<close> for it. Block heights and block counts are whole numbers
  far below \<open>2^53\<close> and are modelled as \<open>int\<close>.
\<close>

type_synonym number = rat

subsection \<open>Binary64 arithmetic\<close>

text \<open>
  The binary exponent of a positive rational: \<open>ilog2 x\<close> is the \<open>e\<close> with
  \<open>2^e \<le> x < 2^(e + 1)\<close>, found by halving from above 2 and doubling from below 1.
\<close>

function log2_ge1 :: "rat \<Rightarrow> int" where
  "log2_ge1 x = (if 2 \<le> x then log2_ge1 (x / 2) + 1 else 0)"
  by pat_completeness auto
termination
proof (relation "measure (\<lambda>x. nat \<lfloor>x\<rfloor>)")
  show "wf (measure (\<lambda>x::rat. nat \<lfloor>x\<rfloor>))" by simp
next
  fix x :: rat
  assume x: "2 \<le> x"
  have "x / 2 \<le> x - 1" using x by simp
  then have "\<lfloor>x / 2\<rfloor> \<le> \<lfloor>x - 1\<rfloor>" by (rule floor_mono)
  then have "\<lfloor>x / 2\<rfloor> < \<lfloor>x\<rfloor>" by simp
  moreover have "0 < \<lfloor>x\<rfloor>" using x by simp
  ultimately show "(x / 2, x) \<in> measure (\<lambda>x. nat \<lfloor>x\<rfloor>)" by simp
qed

function log2_lt1 :: "rat \<Rightarrow> int" where
  "log2_lt1 x = (if 0 < x \<and> x < 1 then log2_lt1 (x * 2) - 1 else 0)"
  by pat_completeness auto
termination
proof (relation "measure (\<lambda>x. nat \<lceil>1 / x\<rceil>)")
  show "wf (measure (\<lambda>x::rat. nat \<lceil>1 / x\<rceil>))" by simp
next
  fix x :: rat
  assume x: "0 < x \<and> x < 1"
  define y where "y = 1 / x"
  have y: "1 < y" using x by (simp add: y_def)
  then have c2: "2 \<le> \<lceil>y\<rceil>" by (simp add: le_ceiling_iff)
  have half: "1 / (x * 2) = y / 2" by (simp add: y_def)
  have "y / 2 \<le> of_int \<lceil>y\<rceil> - 1"
  proof (cases "2 \<le> y")
    case True
    then have "y / 2 \<le> y - 1" by simp
    also have "\<dots> \<le> of_int \<lceil>y\<rceil> - 1" by (simp add: le_of_int_ceiling)
    finally show ?thesis .
  next
    case False
    then have "y / 2 \<le> 1" by simp
    moreover have "(2::rat) \<le> of_int \<lceil>y\<rceil>" using c2 by (metis of_int_le_iff of_int_numeral)
    ultimately show ?thesis by linarith
  qed
  then have "y / 2 \<le> of_int (\<lceil>y\<rceil> - 1)" by simp
  then have "\<lceil>y / 2\<rceil> \<le> \<lceil>y\<rceil> - 1" by (simp only: ceiling_le_iff)
  then show "(x * 2, x) \<in> measure (\<lambda>x. nat \<lceil>1 / x\<rceil>)"
    using c2 by (simp add: half flip: y_def)
qed

declare log2_ge1.simps [simp del] log2_lt1.simps [simp del]

definition ilog2 :: "rat \<Rightarrow> int" where
  "ilog2 x = (if 1 \<le> x then log2_ge1 x else log2_lt1 x)"

text \<open>Rounding to the nearest integer, a tie to the even one.\<close>

definition round_half_even :: "rat \<Rightarrow> int" where
  "round_half_even t =
     (let f = \<lfloor>t\<rfloor>; r = t - of_int f
      in if r < 1 / 2 then f else if 1 / 2 < r then f + 1 else if even f then f else f + 1)"

text \<open>
  The spacing of the binary64 values around \<open>x\<close>: 52 binary places below the
  exponent of \<open>x\<close>, and \<open>2^(-1074)\<close> in the subnormal range.
\<close>

definition quantum :: "rat \<Rightarrow> rat" where
  "quantum x = 2 powi (max (ilog2 \<bar>x\<bar>) (- 1022) - 52)"

text \<open>
  The binary64 value nearest to a rational, a tie to the even significand: what
  every arithmetic operation and every string-to-number conversion returns for the
  exact result \<open>x\<close>. The exponent is not bounded above: a result of magnitude
  \<open>2^1024\<close> or more, which is \<^verbatim>\<open>Infinity\<close> in JavaScript, is out of the model.
\<close>

definition double :: "rat \<Rightarrow> number" where
  "double x =
     (if x = 0 then 0
      else sgn x * of_int (round_half_even (\<bar>x\<bar> / quantum x)) * quantum x)"

text \<open>The operators \<^verbatim>\<open>+\<close>, \<^verbatim>\<open>*\<close> and \<^verbatim>\<open>/\<close> on numbers (the divisors in the code are not 0).\<close>

definition js_add :: "number \<Rightarrow> number \<Rightarrow> number" where
  "js_add a b = double (a + b)"

definition js_mul :: "number \<Rightarrow> number \<Rightarrow> number" where
  "js_mul a b = double (a * b)"

definition js_div :: "number \<Rightarrow> number \<Rightarrow> number" where
  "js_div a b = double (a / b)"

subsection \<open>Errors, parameters and stored records\<close>

type_synonym ObjectID = string

text \<open>A thrown JavaScript error: its message and, for a store error, its \<^verbatim>\<open>code\<close>.\<close>

datatype error = Error (err_message: string) (err_code: "int option")

text \<open>A parameter whose runtime type the code tests with \<^verbatim>\<open>typeof\<close>.\<close>

datatype js_value = JSUndefined | JSString string | JSNumber number | JSObject

text \<open>An \<^verbatim>\<open>Effect\<close> of a transaction: a decoded transfer.\<close>

record effect =
  eff_to :: string
  eff_from :: string
  eff_amount :: string
  eff_contractAddress :: "string option"

text \<open>Entries of old database records that \<^verbatim>\<open>updateWallet\<close> still queries.\<close>

record abi_param =
  param_type :: string
  param_value :: string

record abiType =
  abi_type :: string
  abi_name :: string
  abi_params :: "abi_param list"

record call =
  call_to :: string
  call_abiType :: "abiType option"

record internal =
  internal_action_to :: string

record receipt =
  gasUsed :: number

text \<open>
  A stored transaction (\<^verbatim>\<open>MongoBound<IEVMTransaction>\<close>), with the fields the provider
  reads or writes. Optional fields are options.
\<close>

record evm_tx =
  tx_id :: ObjectID
  tx_chain :: string
  tx_network :: string
  tx_txid :: string
  tx_blockHeight :: "int option"
  tx_blockHash :: "string option"
  tx_gasPrice :: "number option"
  tx_from :: string
  tx_to :: string
  tx_value :: number
  tx_receipt :: "receipt option"
  tx_fee :: "number option"
  tx_internal :: "internal list"
  tx_calls :: "call list"
  tx_effects :: "effect list option"
  tx_wallets :: "ObjectID list"

text \<open>\<^verbatim>\<open>IEVMTransactionTransformed\<close>: a transaction with the optional \<^verbatim>\<open>initialFrom\<close>.\<close>

record evm_tx_transformed = evm_tx +
  initialFrom :: "string option"

text \<open>A wallet-address document of \<^verbatim>\<open>WalletAddressStorage\<close>.\<close>

record wallet_address =
  wa_chain :: string
  wa_network :: string
  wa_wallet :: ObjectID
  wa_address :: string
  wa_processed :: bool

text \<open>The two collections \<^verbatim>\<open>updateWallet\<close> writes.\<close>

record db =
  walletAddresses :: "wallet_address list"
  transactions :: "evm_tx list"

text \<open>JavaScript truthiness of a string parameter that may be undefined.\<close>

definition falsy_string :: "string option \<Rightarrow> bool" where
  "falsy_string s = (case s of None \<Rightarrow> True | Some v \<Rightarrow> v = [])"

text \<open>JavaScript truthiness of a number: \<^verbatim>\<open>NaN\<close> and \<open>0\<close> are falsy.\<close>

definition truthy_number :: "number option \<Rightarrow> bool" where
  "truthy_number v = (case v of None \<Rightarrow> False | Some x \<Rightarrow> x \<noteq> 0)"

text \<open>\<^verbatim>\<open>String.prototype.toLowerCase\<close> on ASCII letters.\<close>

definition lower_char :: "char \<Rightarrow> char" where
  "lower_char c =
     (let n = of_char c :: nat in if 65 \<le> n \<and> n \<le> 90 then char_of (n + 32) else c)"

definition toLowerCase :: "string \<Rightarrow> string" where
  "toLowerCase s = map lower_char s"

text \<open>Template-literal rendering of a whole number (\<^verbatim>\<open>`${target}`\<close>).\<close>

fun string_of_nat :: "nat \<Rightarrow> string" where
  "string_of_nat n =
     (if n < 10 then [char_of (48 + n)]
      else string_of_nat (n div 10) @ [char_of (48 + n mod 10)])"

definition string_of_int :: "int \<Rightarrow> string" where
  "string_of_int i = (if i < 0 then CHR ''-'' # string_of_nat (nat (- i)) else string_of_nat (nat i))"

section \<open>Fee estimator: \<^verbatim>\<open>getFee\<close>\<close>

text \<open>
  \<^verbatim>\<open>Number(x.toFixed(2))\<close>: the number denoted by the two-decimal rendering of \<open>x\<close>.
  \<^verbatim>\<open>toFixed\<close> picks the integer \<open>n\<close> with \<open>n / 100\<close> closest to the magnitude of the
  exact value of \<open>x\<close>, the larger one on a tie, and keeps the sign; \<^verbatim>\<open>Number\<close> reads
  the decimal string as the nearest binary64. From \<open>10^21\<close> on \<^verbatim>\<open>toFixed\<close> renders
  the number itself.
\<close>

definition toFixed2 :: "number \<Rightarrow> number" where
  "toFixed2 x =
     (if 10 ^ 21 \<le> \<bar>x\<bar> then x
      else if x < 0 then - double (of_int \<lfloor>(- x) * 100 + 1 / 2\<rfloor> / 100)
      else double (of_int \<lfloor>x * 100 + 1 / 2\<rfloor> / 100))"

text \<open>Modelled from the spec: \<^verbatim>\<open>StatsUtil.getNthQuartileMedian\<close> (\<^verbatim>\<open>utils/stats\<close>) is not
  among the sources. The spec: the samples, sorted descending by gas price, are
  partitioned into 4 quartiles and the median of the selected quartile is computed;
  quartile 1 is the highest-price quartile and quartile 4 the lowest. The quartiles
  are taken as the four consecutive runs of \<open>length array div 4\<close> samples; the median
  of a run is its middle sample, or the mean of its two middle samples, computed
  with the number operators; an empty run, or a quartile index outside 1 to 4, has
  no median (\<open>None\<close>, the code's \<^verbatim>\<open>NaN\<close>).\<close>

definition median :: "number list \<Rightarrow> number option" where
  "median xs =
     (let n = length xs in
      if n = 0 then None
      else if odd n then Some (xs ! (n div 2))
      else Some (js_div (js_add (xs ! (n div 2 - 1)) (xs ! (n div 2))) 2))"

definition getNthQuartileMedian :: "number list \<Rightarrow> int \<Rightarrow> number option" where
  "getNthQuartileMedian array n =
     (let quartileLength = length array div 4 in
      if n < 1 \<or> 4 < n then None
      else median (take quartileLength (drop (nat (n - 1) * quartileLength) array)))"

record fee_params =
  fp_network :: string
  fp_target :: "int option"

record fee =
  feerate :: number
  blocks :: int

text \<open>Lines 119 to 124: the newest 4000 confirmed transactions of the chain and network.\<close>

definition find_fee_txs :: "evm_tx list \<Rightarrow> string \<Rightarrow> string \<Rightarrow> evm_tx list" where
  "find_fee_txs collection chain network =
     take (20 * 200)
       (sort_key (\<lambda>tx. - the (tx_blockHeight tx))
         (filter (\<lambda>tx. tx_chain tx = chain \<and> tx_network tx = network \<and>
                    (case tx_blockHeight tx of None \<Rightarrow> False | Some h \<Rightarrow> 0 < h))
            collection))"

text \<open>Lines 126 to 129: the truthy gas prices, sorted descending.\<close>

definition blockGasPrices :: "evm_tx list \<Rightarrow> number list" where
  "blockGasPrices txs =
     sort_key uminus (map the (filter truthy_number (map tx_gasPrice txs)))"

text \<open>Line 131: \<^verbatim>\<open>Math.min(target, 4) || 1\<close>.\<close>

definition whichQuartile :: "int \<Rightarrow> int" where
  "whichQuartile target = (let m = min target 4 in if m = 0 then 1 else m)"

text \<open>Lines 134 to 136, from the quartile median to the fee rate.\<close>

definition feerate_of :: "number option \<Rightarrow> number" where
  "feerate_of quartileMedian =
     (let roundedGwei = map_option (\<lambda>m. toFixed2 (js_div m (10 ^ 9))) quartileMedian;
          gwei = (if truthy_number roundedGwei then the roundedGwei else 0)
      in js_mul gwei (10 ^ 9))"

text \<open>
  The producer \<^verbatim>\<open>getFee\<close> hands to the cache (lines 118 to 138). The quartile median
  function is an argument, since \<^verbatim>\<open>StatsUtil\<close> is not among the sources.
\<close>

definition getFee_refresh ::
  "(number list \<Rightarrow> int \<Rightarrow> number option) \<Rightarrow> evm_tx list \<Rightarrow> string \<Rightarrow> string \<Rightarrow> int \<Rightarrow> fee" where
  "getFee_refresh quartileMedianOf collection chain network target =
     (let txs = find_fee_txs collection chain network;
          prices = blockGasPrices txs;
          quartileMedian = quartileMedianOf prices (whichQuartile target)
      in \<lparr>feerate = feerate_of quartileMedian, blocks = target\<rparr>)"

text \<open>
  \<^verbatim>\<open>getFee\<close>, lines 108 to 141. \<^verbatim>\<open>target\<close> defaults to 4 when it is undefined and
  \<^verbatim>\<open>livenet\<close> is renamed \<^verbatim>\<open>mainnet\<close>. \<^verbatim>\<open>CacheStorage.getGlobalOrRefresh\<close> is not among
  the sources and is the argument \<open>getGlobalOrRefresh\<close>: it receives the key and
  the value the producer would compute.
\<close>

definition getFee ::
  "(string \<Rightarrow> fee \<Rightarrow> fee) \<Rightarrow> (number list \<Rightarrow> int \<Rightarrow> number option) \<Rightarrow> string \<Rightarrow>
     evm_tx list \<Rightarrow> fee_params \<Rightarrow> fee" where
  "getFee getGlobalOrRefresh quartileMedianOf chain collection params =
     (let target = (case fp_target params of None \<Rightarrow> 4 | Some t \<Rightarrow> t);
          network = (if fp_network params = ''livenet'' then ''mainnet'' else fp_network params);
          cacheKey = ''getFee-'' @ chain @ ''-'' @ network @ ''-'' @ string_of_int target
      in getGlobalOrRefresh cacheKey
           (getFee_refresh quartileMedianOf collection chain network target))"

section \<open>Token-transfer filter: \<^verbatim>\<open>Erc20RelatedFilterTransform._transform\<close>\<close>

text \<open>\<^verbatim>\<open>Object.assign({}, tx)\<close>: every field of \<open>tx\<close> copied, \<^verbatim>\<open>initialFrom\<close> not set.\<close>

definition assign_tx :: "evm_tx \<Rightarrow> evm_tx_transformed" where
  "assign_tx tx = evm_tx.extend tx (evm_tx_transformed.fields None)"

text \<open>
  The loop of lines 18 to 27 over the matching effects. The stream's output is the
  list of records pushed so far; \<^verbatim>\<open>this.push\<close> appends to it. \<^verbatim>\<open>Number\<close>, applied to
  the effect's amount string, is the argument \<open>Number\<close>.
\<close>

fun push_transfers ::
  "(string \<Rightarrow> number) \<Rightarrow> evm_tx \<Rightarrow> effect list \<Rightarrow> evm_tx_transformed list \<Rightarrow>
     evm_tx_transformed list" where
  "push_transfers Number tx [] pushed = pushed"
| "push_transfers Number tx (internalTx # rest) pushed =
     (let tx0 = assign_tx tx;
          tx1 = tx0\<lparr>tx_value := Number (eff_amount internalTx)\<rparr>;
          tx2 = tx1\<lparr>tx_to := eff_to internalTx\<rparr>;
          tx3 = tx2\<lparr>tx_from := eff_from internalTx\<rparr>;
          tx4 = (if eff_from internalTx \<noteq> tx_from tx
                 then tx3\<lparr>initialFrom := Some (tx_from tx)\<rparr> else tx3)
      in push_transfers Number tx rest (pushed @ [tx4]))"

text \<open>Lines 10 to 30.\<close>

definition erc20_transform ::
  "(string \<Rightarrow> number) \<Rightarrow> string \<Rightarrow> evm_tx \<Rightarrow> evm_tx_transformed list \<Rightarrow>
     evm_tx_transformed list" where
  "erc20_transform Number tokenAddress tx pushed =
     (case tx_effects tx of
        None \<Rightarrow> pushed
      | Some effects \<Rightarrow>
          if length effects \<noteq> 0 then
            (let tokenRelatedInternalTxs =
                   filter (\<lambda>effect. eff_contractAddress effect = Some tokenAddress) effects
             in push_transfers Number tx tokenRelatedInternalTxs pushed)
          else pushed)"

section \<open>Single transaction and transaction streams\<close>

record StreamTransactionParams =
  stp_chain :: "string option"
  stp_network :: "string option"
  stp_txId :: js_value

record block_tip =
  tip_height :: int

text \<open>The result \<^verbatim>\<open>{ ...convertedTx, confirmations }\<close>.\<close>

record 'a transaction_json =
  convertedTx :: 'a
  confirmations :: int

text \<open>
  \<^verbatim>\<open>populateReceipt\<close>, lines 179 to 190. The node's \<^verbatim>\<open>getTransactionReceipt\<close> is the
  argument \<open>getReceipt\<close>; the store's \<^verbatim>\<open>updateOne\<close> rewrites the first record with
  the transaction's \<^verbatim>\<open>_id\<close>.
\<close>

fun updateOne_receipt :: "ObjectID \<Rightarrow> receipt \<Rightarrow> number option \<Rightarrow> evm_tx list \<Rightarrow> evm_tx list" where
  "updateOne_receipt oid r f [] = []"
| "updateOne_receipt oid r f (d # ds) =
     (if tx_id d = oid then d\<lparr>tx_receipt := Some r, tx_fee := f\<rparr> # ds
      else d # updateOne_receipt oid r f ds)"

definition populateReceipt ::
  "(string \<Rightarrow> string \<Rightarrow> error + receipt option) \<Rightarrow> evm_tx \<Rightarrow> evm_tx list \<Rightarrow>
     (error + evm_tx) \<times> evm_tx list" where
  "populateReceipt getReceipt tx collection =
     (case tx_receipt tx of
        Some r \<Rightarrow> (Inr tx, collection)
      | None \<Rightarrow>
          (case getReceipt (tx_network tx) (tx_txid tx) of
             Inl err \<Rightarrow> (Inl err, collection)
           | Inr None \<Rightarrow> (Inr tx, collection)
           | Inr (Some receipt) \<Rightarrow>
               (let fee = map_option (\<lambda>gasPrice. js_mul (gasUsed receipt) gasPrice)
                            (tx_gasPrice tx)
                in (Inr (tx\<lparr>tx_receipt := Some receipt, tx_fee := fee\<rparr>),
                    updateOne_receipt (tx_id tx) receipt fee collection))))"

text \<open>
  \<^verbatim>\<open>populateEffects\<close>, lines 192 to 197. \<^verbatim>\<open>EVMTransactionStorage.getEffects\<close> is not among
  the sources and is the argument \<open>getEffects\<close>.
\<close>

definition populateEffects :: "(evm_tx \<Rightarrow> effect list) \<Rightarrow> evm_tx \<Rightarrow> evm_tx" where
  "populateEffects getEffects tx =
     (case tx_effects tx of
        None \<Rightarrow> tx\<lparr>tx_effects := Some (getEffects tx)\<rparr>
      | Some effects \<Rightarrow>
          if length effects = 0 then tx\<lparr>tx_effects := Some (getEffects tx)\<rparr> else tx)"

text \<open>
  \<^verbatim>\<open>getTransaction\<close>, lines 199 to 227. The result is the returned value (\<open>None\<close> for
  \<^verbatim>\<open>undefined\<close>) with the errors written by \<^verbatim>\<open>console.error\<close>, and the transaction
  collection after the call. Whatever is thrown inside the \<^verbatim>\<open>try\<close> block is caught,
  logged, and the function returns \<^verbatim>\<open>undefined\<close>. \<open>getLocalTip\<close> reads the block
  store and \<open>apiTransform\<close> is \<^verbatim>\<open>EVMTransactionStorage._apiTransform\<close>; neither is
  among the sources.
\<close>

definition getTransaction ::
  "(string option \<Rightarrow> string option \<Rightarrow> error + block_tip option) \<Rightarrow>
   (string \<Rightarrow> string \<Rightarrow> error + receipt option) \<Rightarrow> (evm_tx \<Rightarrow> effect list) \<Rightarrow>
   (evm_tx \<Rightarrow> 'a) \<Rightarrow> StreamTransactionParams \<Rightarrow> evm_tx list \<Rightarrow>
     ('a transaction_json option \<times> error list) \<times> evm_tx list" where
  "getTransaction getLocalTip getReceipt getEffects apiTransform params collection =
     (case stp_txId params of
        JSString txId \<Rightarrow>
          if falsy_string (stp_chain params) \<or> falsy_string (stp_network params) then
            ((None, [Error ''Missing required param'' None]), collection)
          else
            (let chain = the (stp_chain params);
                 network = toLowerCase (the (stp_network params))
             in case getLocalTip (stp_chain params) (stp_network params) of
                  Inl err \<Rightarrow> ((None, [err]), collection)
                | Inr tip \<Rightarrow>
                    (let tipHeight = (case tip of Some t \<Rightarrow> tip_height t | None \<Rightarrow> 0)
                     in case find (\<lambda>tx. tx_chain tx = chain \<and> tx_network tx = network \<and>
                                         tx_txid tx = txId) collection of
                          None \<Rightarrow> ((None, []), collection)
                        | Some found \<Rightarrow>
                            (let confirmations =
                                   (case tx_blockHeight found of
                                      None \<Rightarrow> 0
                                    | Some h \<Rightarrow> if h \<noteq> 0 \<and> 0 \<le> h then tipHeight - h + 1 else 0)
                             in case populateReceipt getReceipt found collection of
                                  (Inl err, collection') \<Rightarrow> ((None, [err]), collection')
                                | (Inr found', collection') \<Rightarrow>
                                    (let found'' = populateEffects getEffects found';
                                         converted = apiTransform found''
                                     in ((Some \<lparr>convertedTx = converted,
                                                 confirmations = confirmations\<rparr>, []),
                                         collection')))))
      | _ \<Rightarrow> ((None, [Error ''Missing required param'' None]), collection))"

record StreamTransactionsArgs =
  sta_blockHash :: "string option"
  sta_blockHeight :: "int option"

record 'args StreamTransactionsParams =
  stsp_chain :: "string option"
  stsp_network :: "string option"
  stsp_args :: 'args

record tx_query =
  q_chain :: string
  q_network :: string
  q_blockHeight :: "int option"
  q_blockHash :: "string option"

text \<open>The callback of lines 294 to 305, applied to every streamed record; \<open>stringify\<close>
  is \<^verbatim>\<open>JSON.stringify\<close>.\<close>

definition streamTransactions_transform ::
  "int \<Rightarrow> (evm_tx \<Rightarrow> effect list) \<Rightarrow> (evm_tx \<Rightarrow> 'a) \<Rightarrow> ('a transaction_json \<Rightarrow> 'json) \<Rightarrow>
     evm_tx \<Rightarrow> 'json" where
  "streamTransactions_transform tipHeight getEffects apiTransform stringify t =
     (let confirmations =
            (case tx_blockHeight t of
               None \<Rightarrow> 0
             | Some h \<Rightarrow> if 0 \<le> h then tipHeight - h + 1 else 0);
          t' = populateEffects getEffects t;
          converted = apiTransform t'
      in stringify \<lparr>convertedTx = converted, confirmations = confirmations\<rparr>)"

text \<open>
  \<^verbatim>\<open>streamTransactions\<close>, lines 276 to 306. \<^verbatim>\<open>Storage.apiStreamingFind\<close> is not among
  the sources and is the argument \<open>apiStreamingFind\<close>; the validation error is
  thrown to the caller.
\<close>

definition streamTransactions ::
  "(tx_query \<Rightarrow> 'm StreamTransactionsArgs_scheme \<Rightarrow> (evm_tx \<Rightarrow> 'json) \<Rightarrow> 'res) \<Rightarrow>
   (string option \<Rightarrow> string option \<Rightarrow> error + block_tip option) \<Rightarrow>
   (evm_tx \<Rightarrow> effect list) \<Rightarrow> (evm_tx \<Rightarrow> 'a) \<Rightarrow> ('a transaction_json \<Rightarrow> 'json) \<Rightarrow>
   ('m StreamTransactionsArgs_scheme) StreamTransactionsParams \<Rightarrow> error + 'res" where
  "streamTransactions apiStreamingFind getLocalTip getEffects apiTransform stringify params =
     (if falsy_string (stsp_chain params) \<or> falsy_string (stsp_network params) then
        Inl (Error ''Missing chain or network'' None)
      else
        (let args = stsp_args params;
             query = \<lparr>q_chain = the (stsp_chain params),
                      q_network = toLowerCase (the (stsp_network params)),
                      q_blockHeight = sta_blockHeight args,
                      q_blockHash = sta_blockHash args\<rparr>
         in case getLocalTip (stsp_chain params) (stsp_network params) of
              Inl err \<Rightarrow> Inl err
            | Inr tip \<Rightarrow>
                (let tipHeight = (case tip of Some t \<Rightarrow> tip_height t | None \<Rightarrow> 0)
                 in Inr (apiStreamingFind query args
                      (streamTransactions_transform tipHeight getEffects apiTransform stringify)))))"

section \<open>Wallet aggregator: \<^verbatim>\<open>getWalletBalance\<close>\<close>

record wallet =
  wallet_id :: "ObjectID option"

record 'args GetWalletBalanceParams =
  gwb_network :: string
  gwb_wallet :: wallet
  gwb_args :: 'args

record 'args GetBalanceForAddressParams =
  gba_chain :: string
  gba_network :: string
  gba_address :: string
  gba_args :: 'args

record balance =
  confirmed :: number
  unconfirmed :: number
  balance :: number

text \<open>
  \<^verbatim>\<open>Promise.all\<close> over promises with the given results. \<open>settled\<close> lists the
  promises, by their index, in the order in which they settle; promises it does not
  list settle after those, in list order. The call rejects with the first rejection
  in that order, and otherwise fulfils with the values in list order.
\<close>

definition Promise_all :: "nat list \<Rightarrow> (error + 'a) list \<Rightarrow> error + 'a list" where
  "Promise_all settled ps =
     (case find (\<lambda>i. i < length ps \<and> isl (ps ! i)) (settled @ [0..<length ps]) of
        Some i \<Rightarrow> Inl (projl (ps ! i))
      | None \<Rightarrow> Inr (map projr ps))"

text \<open>
  \<^verbatim>\<open>getWalletBalance\<close>, lines 308 to 329. \<open>getWalletAddresses\<close> is inherited from
  \<^verbatim>\<open>InternalStateProvider\<close>, which is not among the sources; \<open>getBalanceForAddress\<close>
  is the provider's balance reader, given by the result of each call, and \<open>settled\<close>
  is the order in which the lookups settle. The reduce adds with the number
  operator \<^verbatim>\<open>+\<close>.
\<close>

definition getWalletBalance ::
  "string \<Rightarrow> (ObjectID \<Rightarrow> error + wallet_address list) \<Rightarrow>
   ('args GetBalanceForAddressParams \<Rightarrow> error + balance) \<Rightarrow> nat list \<Rightarrow>
   'args GetWalletBalanceParams \<Rightarrow> error + balance" where
  "getWalletBalance chain getWalletAddresses getBalanceForAddress settled params =
     (case wallet_id (gwb_wallet params) of
        None \<Rightarrow>
          Inl (Error ''Wallet balance can only be retrieved for wallets with the _id property''
                 None)
      | Some wid \<Rightarrow>
          (case getWalletAddresses wid of
             Inl err \<Rightarrow> Inl err
           | Inr addresses \<Rightarrow>
               (let addressBalancePromises =
                      map (\<lambda>wa. getBalanceForAddress
                                  \<lparr>gba_chain = chain, gba_network = gwb_network params,
                                   gba_address = wa_address wa, gba_args = gwb_args params\<rparr>)
                        addresses
                in case Promise_all settled addressBalancePromises of
                     Inl err \<Rightarrow> Inl err
                   | Inr addressBalances \<Rightarrow>
                       Inr (foldl
                              (\<lambda>prev cur.
                                 \<lparr>confirmed = js_add (confirmed prev) (confirmed cur),
                                  unconfirmed = js_add (unconfirmed prev) (unconfirmed cur),
                                  balance = js_add (balance prev) (balance cur)\<rparr>)
                              \<lparr>confirmed = 0, unconfirmed = 0, balance = 0\<rparr>
                              addressBalances))))"

text \<open>
  Amounts that \<^verbatim>\<open>+\<close> adds without rounding: whole, not negative, and with a sum of
  at most \<open>2^53\<close>.
\<close>

definition whole_amounts :: "number list \<Rightarrow> bool" where
  "whole_amounts xs = ((\<forall>x\<in>set xs. 0 \<le> x \<and> of_int \<lfloor>x\<rfloor> = x) \<and> sum_list xs \<le> 2 ^ 53)"

section \<open>Broadcast: \<^verbatim>\<open>broadcastTransaction\<close>\<close>

text \<open>The argument \<^verbatim>\<open>rawTx\<close> is a string or a list of strings.\<close>

datatype rawTx_arg = RawTx string | RawTxs "string list"

text \<open>The result is one transaction id or a list of them.\<close>

datatype broadcast_result = TxId string | TxIds "string list"

text \<open>
  The loop of lines 234 to 246. \<open>send\<close> is the node's \<^verbatim>\<open>sendSignedTransaction\<close>: from a
  raw transaction and the node's state, the hash or the error, and the node's next
  state. The first error rejects the call.
\<close>

fun broadcast_loop ::
  "(string \<Rightarrow> 'node \<Rightarrow> (error + string) \<times> 'node) \<Rightarrow> string list \<Rightarrow> string list \<Rightarrow> 'node \<Rightarrow>
     (error + string list) \<times> 'node" where
  "broadcast_loop send [] txids node = (Inr txids, node)"
| "broadcast_loop send (tx # rest) txids node =
     (case send tx node of
        (Inl err, node') \<Rightarrow> (Inl err, node')
      | (Inr txid, node') \<Rightarrow> broadcast_loop send rest (txids @ [txid]) node')"

text \<open>\<^verbatim>\<open>broadcastTransaction\<close>, lines 229 to 248, on an acquired connection.\<close>

definition broadcastTransaction ::
  "(string \<Rightarrow> 'node \<Rightarrow> (error + string) \<times> 'node) \<Rightarrow> rawTx_arg \<Rightarrow> 'node \<Rightarrow>
     (error + broadcast_result) \<times> 'node" where
  "broadcastTransaction send rawTx node =
     (let rawTxs = (case rawTx of RawTx s \<Rightarrow> [s] | RawTxs l \<Rightarrow> l)
      in case broadcast_loop send rawTxs [] node of
           (Inl err, node') \<Rightarrow> (Inl err, node')
         | (Inr txids, node') \<Rightarrow>
             (Inr (if length txids = 1 then TxId (txids ! 0) else TxIds txids), node'))"

section \<open>Wallet registration: \<^verbatim>\<open>updateWallet\<close>\<close>

record UpdateWalletParams =
  uw_chain :: string
  uw_network :: string
  uw_wallet_id :: ObjectID
  uw_addresses :: "string list"

text \<open>The filter of the \<^verbatim>\<open>updateMany\<close> of lines 593 to 611: one disjunct per entry of \<^verbatim>\<open>$or\<close>.
  A condition on a path through an array holds when some element satisfies it.\<close>

definition matches_wallet_query ::
  "string \<Rightarrow> string \<Rightarrow> string list \<Rightarrow> string list \<Rightarrow> evm_tx \<Rightarrow> bool" where
  "matches_wallet_query chain network addressBatch addressBatchLC tx =
     (let here = (tx_chain tx = chain \<and> tx_network tx = network);
          effects = (case tx_effects tx of None \<Rightarrow> [] | Some es \<Rightarrow> es);
          abis = List.map_filter call_abiType (tx_calls tx)
      in (here \<and> tx_from tx \<in> set addressBatch)
       \<or> (here \<and> tx_to tx \<in> set addressBatch)
       \<or> (here \<and> list_ex (\<lambda>i. internal_action_to i \<in> set addressBatchLC) (tx_internal tx))
       \<or> (here \<and> list_ex (\<lambda>c. call_to c \<in> set addressBatchLC) (tx_calls tx))
       \<or> (here \<and> list_ex (\<lambda>a. abi_type a = ''ERC20'') abis
               \<and> list_ex (\<lambda>a. abi_name a \<in> set [''transfer'', ''transferFrom'']) abis
               \<and> list_ex (\<lambda>a. list_ex (\<lambda>p. param_type p = ''address'') (abi_params a)) abis
               \<and> list_ex (\<lambda>a. list_ex (\<lambda>p. param_value p \<in> set addressBatchLC) (abi_params a)) abis)
       \<or> list_ex (\<lambda>e. eff_to e \<in> set addressBatchLC) effects
       \<or> list_ex (\<lambda>e. eff_from e \<in> set addressBatchLC) effects)"

text \<open>\<^verbatim>\<open>{ $addToSet: { wallets: id } }\<close>: the id is added unless the array holds it.\<close>

definition addToSet_wallets :: "ObjectID \<Rightarrow> evm_tx \<Rightarrow> evm_tx" where
  "addToSet_wallets wid tx =
     (if wid \<in> set (tx_wallets tx) then tx else tx\<lparr>tx_wallets := tx_wallets tx @ [wid]\<rparr>)"

text \<open>
  A write to the store may fail: \<open>None\<close> when it completes, or the error it throws
  with the documents that were written before it.
\<close>

type_synonym 'doc write_fault = "(error \<times> ('doc \<Rightarrow> bool)) option"

text \<open>
  \<^verbatim>\<open>updateMany\<close>: the update applied to every document that matches the filter; when
  the write fails, to those of them written before the failure, and the error is
  thrown.
\<close>

definition updateMany ::
  "'doc write_fault \<Rightarrow> ('doc \<Rightarrow> bool) \<Rightarrow> ('doc \<Rightarrow> 'doc) \<Rightarrow> 'doc list \<Rightarrow> error option \<times> 'doc list" where
  "updateMany fault matches update collection =
     (case fault of
        None \<Rightarrow> (None, map (\<lambda>doc. if matches doc then update doc else doc) collection)
      | Some (err, written) \<Rightarrow>
          (Some err,
           map (\<lambda>doc. if matches doc \<and> written doc then update doc else doc) collection))"

text \<open>
  The body of the loop of lines 574 to 619, for one address batch: the error it
  throws, if any, and the database it leaves. \<^verbatim>\<open>bulkWrite\<close> of the wallet-address
  collection is the argument \<open>bulkWrite\<close>: from the documents to insert and the
  collection, the error it throws, if any, and the collection it leaves; only an
  error of another code than 11000 is thrown on. \<open>txFault\<close> and \<open>waFault\<close> say, for a
  batch and a collection, whether the \<^verbatim>\<open>updateMany\<close> of the transactions and of the
  wallet addresses fails; these two calls are outside the \<^verbatim>\<open>try\<close> block, so their
  errors are thrown on.
\<close>

definition updateWallet_batch ::
  "(wallet_address list \<Rightarrow> wallet_address list \<Rightarrow> error option \<times> wallet_address list) \<Rightarrow>
   (string list \<Rightarrow> evm_tx list \<Rightarrow> evm_tx write_fault) \<Rightarrow>
   (string list \<Rightarrow> wallet_address list \<Rightarrow> wallet_address write_fault) \<Rightarrow>
   UpdateWalletParams \<Rightarrow> string list \<Rightarrow> db \<Rightarrow> error option \<times> db" where
  "updateWallet_batch bulkWrite txFault waFault params addressBatch d =
     (let chain = uw_chain params;
          network = uw_network params;
          walletAddressInserts =
            map (\<lambda>address. \<lparr>wa_chain = chain, wa_network = network,
                              wa_wallet = uw_wallet_id params, wa_address = address,
                              wa_processed = False\<rparr>) addressBatch;
          (thrown, was) = bulkWrite walletAddressInserts (walletAddresses d);
          d1 = d\<lparr>walletAddresses := was\<rparr>
      in case (case thrown of
                 None \<Rightarrow> None
               | Some err \<Rightarrow> if err_code err \<noteq> Some 11000 then Some err else None) of
           Some err \<Rightarrow> (Some err, d1)
         | None \<Rightarrow>
             (let addressBatchLC = map toLowerCase addressBatch;
                  (thrown2, txs) =
                    updateMany (txFault addressBatch (transactions d1))
                      (matches_wallet_query chain network addressBatch addressBatchLC)
                      (addToSet_wallets (uw_wallet_id params)) (transactions d1);
                  d2 = d1\<lparr>transactions := txs\<rparr>
              in case thrown2 of
                   Some err \<Rightarrow> (Some err, d2)
                 | None \<Rightarrow>
                     (let (thrown3, was') =
                            updateMany (waFault addressBatch (walletAddresses d2))
                              (\<lambda>wa. wa_chain wa = chain \<and> wa_network wa = network \<and>
                                     wa_address wa \<in> set addressBatch \<and>
                                     wa_wallet wa = uw_wallet_id params)
                              (\<lambda>wa. wa\<lparr>wa_processed := True\<rparr>) (walletAddresses d2);
                          d3 = d2\<lparr>walletAddresses := was'\<rparr>
                      in (thrown3, d3))))"

text \<open>The loop over the address batches: the first error thrown ends the call.\<close>

fun updateWallet_batches ::
  "(wallet_address list \<Rightarrow> wallet_address list \<Rightarrow> error option \<times> wallet_address list) \<Rightarrow>
   (string list \<Rightarrow> evm_tx list \<Rightarrow> evm_tx write_fault) \<Rightarrow>
   (string list \<Rightarrow> wallet_address list \<Rightarrow> wallet_address write_fault) \<Rightarrow>
   UpdateWalletParams \<Rightarrow> string list list \<Rightarrow> db \<Rightarrow> (error + unit) \<times> db" where
  "updateWallet_batches bulkWrite txFault waFault params [] d = (Inr (), d)"
| "updateWallet_batches bulkWrite txFault waFault params (addressBatch # rest) d =
     (case updateWallet_batch bulkWrite txFault waFault params addressBatch d of
        (Some err, d') \<Rightarrow> (Inl err, d')
      | (None, d') \<Rightarrow> updateWallet_batches bulkWrite txFault waFault params rest d')"

text \<open>
  \<^verbatim>\<open>updateWallet\<close>, lines 571 to 620. \<^verbatim>\<open>partition\<close> (\<^verbatim>\<open>utils/partition\<close>) is not among the
  sources and is the argument \<open>partition_fn\<close>.
\<close>

definition updateWallet ::
  "(string list \<Rightarrow> nat \<Rightarrow> string list list) \<Rightarrow>
   (wallet_address list \<Rightarrow> wallet_address list \<Rightarrow> error option \<times> wallet_address list) \<Rightarrow>
   (string list \<Rightarrow> evm_tx list \<Rightarrow> evm_tx write_fault) \<Rightarrow>
   (string list \<Rightarrow> wallet_address list \<Rightarrow> wallet_address write_fault) \<Rightarrow>
   UpdateWalletParams \<Rightarrow> db \<Rightarrow> (error + unit) \<times> db" where
  "updateWallet partition_fn bulkWrite txFault waFault params d =
     (let addressBatches = partition_fn (uw_addresses params) 500
      in updateWallet_batches bulkWrite txFault waFault params addressBatches d)"

section \<open>Sample records\<close>

text \<open>A confirmed transaction of \<^verbatim>\<open>ETH\<close> \<^verbatim>\<open>mainnet\<close> with a gas price and a block height.\<close>

definition fee_sample :: "number \<Rightarrow> int \<Rightarrow> evm_tx" where
  "fee_sample price height =
     \<lparr>tx_id = ''id'', tx_chain = ''ETH'', tx_network = ''mainnet'', tx_txid = ''0x1'',
      tx_blockHeight = Some height, tx_blockHash = None, tx_gasPrice = Some price,
      tx_from = ''0xa'', tx_to = ''0xb'', tx_value = 0, tx_receipt = None, tx_fee = None,
      tx_internal = [], tx_calls = [], tx_effects = None, tx_wallets = []\<rparr>"

text \<open>A transaction of a sender with its effects, confirmed at height 95.\<close>

definition token_tx :: "string \<Rightarrow> effect list option \<Rightarrow> evm_tx" where
  "token_tx sender effects =
     \<lparr>tx_id = ''id'', tx_chain = ''ETH'', tx_network = ''mainnet'', tx_txid = ''0x1'',
      tx_blockHeight = Some 95, tx_blockHash = None, tx_gasPrice = Some 1,
      tx_from = sender, tx_to = ''0xcontract'', tx_value = 0, tx_receipt = None, tx_fee = None,
      tx_internal = [], tx_calls = [], tx_effects = effects, tx_wallets = []\<rparr>"

text \<open>A block store whose tip has a given height, a node that has no receipt, and the
  parameters of a lookup on \<^verbatim>\<open>ETH\<close> \<^verbatim>\<open>mainnet\<close>.\<close>

definition tip_at :: "int \<Rightarrow> string option \<Rightarrow> string option \<Rightarrow> error + block_tip option" where
  "tip_at h chain network = Inr (Some \<lparr>tip_height = h\<rparr>)"

definition no_receipt :: "string \<Rightarrow> string \<Rightarrow> error + receipt option" where
  "no_receipt network txid = Inr None"

definition tx_params :: "js_value \<Rightarrow> StreamTransactionParams" where
  "tx_params txId = \<lparr>stp_chain = Some ''ETH'', stp_network = Some ''mainnet'', stp_txId = txId\<rparr>"

text \<open>A wallet with addresses, and a balance reader that knows two of them and fails on
  any other, with an error that names the address.\<close>

definition sample_address :: "string \<Rightarrow> wallet_address" where
  "sample_address a =
     \<lparr>wa_chain = ''ETH'', wa_network = ''mainnet'', wa_wallet = ''w1'', wa_address = a,
      wa_processed = True\<rparr>"

definition sample_balances :: "unit GetBalanceForAddressParams \<Rightarrow> error + balance" where
  "sample_balances p =
     (if gba_address p = ''0xa'' then Inr \<lparr>confirmed = 10, unconfirmed = 0, balance = 10\<rparr>
      else if gba_address p = ''0xb'' then Inr \<lparr>confirmed = 5, unconfirmed = 0, balance = 5\<rparr>
      else Inl (Error (''no balance for '' @ gba_address p) None))"

definition balance_params :: "ObjectID option \<Rightarrow> unit GetWalletBalanceParams" where
  "balance_params wid =
     \<lparr>gwb_network = ''mainnet'', gwb_wallet = \<lparr>wallet_id = wid\<rparr>, gwb_args = ()\<rparr>"

text \<open>A node that answers a raw transaction with its hash and records it.\<close>

definition sample_send :: "string \<Rightarrow> string list \<Rightarrow> (error + string) \<times> string list" where
  "sample_send = (\<lambda>tx node. (Inr (''hash:'' @ tx), node @ [tx]))"

text \<open>A partition into one batch; a wallet-address collection with a unique index, whose
  bulk write throws the duplicate-key error 11000; writes that complete and a
  transaction write that fails before writing; a bulk write that throws another
  error; a stored transaction; a registration of one address; and the database after
  that registration.\<close>

definition one_batch :: "string list \<Rightarrow> nat \<Rightarrow> string list list" where
  "one_batch xs n = (if xs = [] then [] else [xs])"

definition unique_insert ::
  "wallet_address list \<Rightarrow> wallet_address list \<Rightarrow> error option \<times> wallet_address list" where
  "unique_insert docs coll =
     (if list_ex (\<lambda>doc. list_ex (\<lambda>wa. wa_chain wa = wa_chain doc \<and> wa_network wa = wa_network doc \<and>
                                      wa_wallet wa = wa_wallet doc \<and> wa_address wa = wa_address doc)
                            coll) docs
      then (Some (Error ''E11000 duplicate key error'' (Some 11000)), coll)
      else (None, coll @ docs))"

definition no_fault :: "string list \<Rightarrow> 'doc list \<Rightarrow> 'doc write_fault" where
  "no_fault addressBatch collection = None"

definition tx_write_fails :: "string list \<Rightarrow> evm_tx list \<Rightarrow> evm_tx write_fault" where
  "tx_write_fails addressBatch collection = Some (Error ''connection closed'' None, \<lambda>doc. False)"

definition failing_insert ::
  "wallet_address list \<Rightarrow> wallet_address list \<Rightarrow> error option \<times> wallet_address list" where
  "failing_insert docs coll = (Some (Error ''not primary'' (Some 10107)), coll)"

definition sample_tx :: "string \<Rightarrow> string \<Rightarrow> ObjectID list \<Rightarrow> evm_tx" where
  "sample_tx sender recipient wallets =
     \<lparr>tx_id = ''id'', tx_chain = ''ETH'', tx_network = ''mainnet'', tx_txid = ''0x1'',
      tx_blockHeight = Some 95, tx_blockHash = None, tx_gasPrice = Some 1,
      tx_from = sender, tx_to = recipient, tx_value = 0, tx_receipt = None, tx_fee = None,
      tx_internal = [], tx_calls = [], tx_effects = None, tx_wallets = wallets\<rparr>"

definition register_params :: UpdateWalletParams where
  "register_params =
     \<lparr>uw_chain = ''ETH'', uw_network = ''mainnet'', uw_wallet_id = ''w1'',
      uw_addresses = [''0xa'']\<rparr>"

definition registered_db :: db where
  "registered_db =
     \<lparr>walletAddresses =
        [\<lparr>wa_chain = ''ETH'', wa_network = ''mainnet'', wa_wallet = ''w1'',
          wa_address = ''0xa'', wa_processed = True\<rparr>],
      transactions = [sample_tx ''0xa'' ''0xb'' [''w1'']]\<rparr>"

section \<open>Properties of the binary64 arithmetic\<close>

subsection \<open>The binary exponent\<close>

lemma pow2_step: "2 powi (e + 1) = 2 powi e * (2::rat)"
  by (simp add: power_int_add)

lemma log2_ge1_bounds: "1 \<le> x \<Longrightarrow> 2 powi log2_ge1 x \<le> x \<and> x < 2 powi (log2_ge1 x + 1)"
proof (induction x rule: log2_ge1.induct)
  case (1 x)
  show ?case
  proof (cases "2 \<le> x")
    case True
    then have "1 \<le> x / 2" by simp
    from "1.IH"[OF True this] have ih: "2 powi log2_ge1 (x / 2) \<le> x / 2"
      "x / 2 < 2 powi (log2_ge1 (x / 2) + 1)" by auto
    have eq: "log2_ge1 x = log2_ge1 (x / 2) + 1" using True by (subst log2_ge1.simps) simp
    show ?thesis using ih unfolding eq pow2_step by simp
  next
    case False
    then have "log2_ge1 x = 0" by (subst log2_ge1.simps) simp
    then show ?thesis using False "1.prems" by simp
  qed
qed

lemma log2_lt1_bounds:
  "0 < x \<Longrightarrow> x < 2 \<Longrightarrow> 2 powi log2_lt1 x \<le> x \<and> x < 2 powi (log2_lt1 x + 1)"
proof (induction x rule: log2_lt1.induct)
  case (1 x)
  show ?case
  proof (cases "x < 1")
    case True
    with "1.prems" have c: "0 < x \<and> x < 1" by simp
    have "0 < x * 2" "x * 2 < 2" using c by simp_all
    from "1.IH"[OF c this] have ih: "2 powi log2_lt1 (x * 2) \<le> x * 2"
      "x * 2 < 2 powi (log2_lt1 (x * 2) + 1)" by auto
    have eq: "log2_lt1 x = log2_lt1 (x * 2) - 1" using c by (subst log2_lt1.simps) simp
    have "2 powi log2_lt1 (x * 2) = 2 powi (log2_lt1 (x * 2) - 1) * (2::rat)"
      using pow2_step[of "log2_lt1 (x * 2) - 1"] by simp
    then show ?thesis using ih unfolding eq pow2_step by simp
  next
    case False
    then have "log2_lt1 x = 0" by (subst log2_lt1.simps) simp
    then show ?thesis using False "1.prems" by simp
  qed
qed

lemma ilog2_bounds: "0 < x \<Longrightarrow> 2 powi ilog2 x \<le> x \<and> x < 2 powi (ilog2 x + 1)"
  using log2_ge1_bounds[of x] log2_lt1_bounds[of x] by (auto simp: ilog2_def)

lemma pow2_less_imp: "2 powi a < (2::rat) powi b \<Longrightarrow> a < b"
proof (rule ccontr)
  assume lt: "2 powi a < (2::rat) powi b" and "\<not> a < b"
  then have "b \<le> a" by simp
  then have "2 powi b \<le> (2::rat) powi a" by (rule power_int_increasing) simp
  with lt show False by simp
qed

lemma ilog2_unique:
  assumes "2 powi e \<le> x" "x < 2 powi (e + 1)"
  shows "ilog2 x = e"
proof -
  have "(0::rat) < 2 powi e" by simp
  then have pos: "0 < x" using assms(1) by linarith
  note b = ilog2_bounds[OF pos]
  have "2 powi e < (2::rat) powi (ilog2 x + 1)" using assms(1) b by linarith
  then have "e < ilog2 x + 1" by (rule pow2_less_imp)
  moreover have "2 powi ilog2 x < (2::rat) powi (e + 1)" using assms(2) b by linarith
  then have "ilog2 x < e + 1" by (rule pow2_less_imp)
  ultimately show ?thesis by simp
qed

lemma ilog2_mono:
  assumes "0 < x" "x \<le> y"
  shows "ilog2 x \<le> ilog2 y"
proof -
  have "0 < y" using assms by simp
  have "2 powi ilog2 x \<le> x" using ilog2_bounds[OF assms(1)] by simp
  also have "x \<le> y" by fact
  also have "y < 2 powi (ilog2 y + 1)" using ilog2_bounds[OF \<open>0 < y\<close>] by simp
  finally have "ilog2 x < ilog2 y + 1" by (rule pow2_less_imp)
  then show ?thesis by simp
qed

lemma pow2_add: "2 powi (a + b) = 2 powi a * (2::rat) powi b"
  by (rule power_int_add) simp

lemma pow2_shift53: "2 powi (e - 52) * (2::rat) ^ 53 = 2 powi (e + 1)"
proof -
  have "e + 1 = (e - 52) + 53" by simp
  then have "2 powi (e + 1) = 2 powi (e - 52) * (2::rat) powi 53" by (simp only: pow2_add)
  then show ?thesis by simp
qed

lemma pow2_shift52: "2 powi (e - 52) * (2::rat) ^ 52 = 2 powi e"
proof -
  have "e = (e - 52) + 52" by simp
  then have "2 powi e = 2 powi (e - 52) * (2::rat) powi 52" by (metis pow2_add)
  then show ?thesis by simp
qed


subsection \<open>Rounding to the nearest integer, a tie to the even one\<close>

lemma round_half_even_bounds:
  "\<lfloor>t\<rfloor> \<le> round_half_even t \<and> round_half_even t \<le> \<lfloor>t\<rfloor> + 1"
  by (simp add: round_half_even_def Let_def)

lemma round_half_even_of_int [simp]: "round_half_even (of_int k) = k"
  by (simp add: round_half_even_def Let_def)

lemma round_half_even_mono:
  assumes "s \<le> t"
  shows "round_half_even s \<le> round_half_even t"
proof (cases "\<lfloor>s\<rfloor> < \<lfloor>t\<rfloor>")
  case True
  have "round_half_even s \<le> \<lfloor>s\<rfloor> + 1" using round_half_even_bounds by blast
  also have "\<dots> \<le> \<lfloor>t\<rfloor>" using True by simp
  also have "\<dots> \<le> round_half_even t" using round_half_even_bounds by blast
  finally show ?thesis .
next
  case False
  moreover have "\<lfloor>s\<rfloor> \<le> \<lfloor>t\<rfloor>" using assms by (rule floor_mono)
  ultimately have eq: "\<lfloor>s\<rfloor> = \<lfloor>t\<rfloor>" by simp
  then have "s - of_int \<lfloor>s\<rfloor> \<le> t - of_int \<lfloor>t\<rfloor>" using assms by simp
  then show ?thesis unfolding round_half_even_def Let_def eq by auto
qed

lemma round_half_even_nonneg: "0 \<le> t \<Longrightarrow> 0 \<le> round_half_even t"
  using round_half_even_mono[of 0 t] round_half_even_of_int[of 0] by simp

lemma round_half_even_nearest:
  assumes "\<bar>t - of_int k\<bar> < 1 / 2"
  shows "round_half_even t = k"
proof (cases "of_int k \<le> t")
  case True
  have "t < of_int k + 1" using assms by linarith
  with True have "\<lfloor>t\<rfloor> = k" by (intro floor_unique)
  moreover have "t - of_int k < 1 / 2" using assms by linarith
  ultimately show ?thesis by (simp add: round_half_even_def Let_def)
next
  case False
  have lo: "of_int k - 1 / 2 < t" using assms by linarith
  have "of_int (k - 1) \<le> t" using lo by simp
  moreover have "t < of_int (k - 1) + 1" using False by simp
  ultimately have f: "\<lfloor>t\<rfloor> = k - 1" by (intro floor_unique)
  have "1 / 2 < t - of_int (k - 1)" using lo by simp
  then show ?thesis unfolding round_half_even_def Let_def f by simp
qed


subsection \<open>Rounding to a double\<close>

text \<open>Rounding is odd and monotone, and leaves every whole number up to \<open>2^53\<close> and every
  number \<open>k * 2^j\<close> with \<open>\<bar>k\<bar> < 2^53\<close> and \<open>j \<ge> -1074\<close> as it is.\<close>

lemma quantum_pos [simp]: "0 < quantum x"
  by (simp add: quantum_def)

lemma quantum_neq_0 [simp]: "quantum x \<noteq> 0"
  by (simp add: quantum_def)

lemma quantum_nonneg [simp]: "0 \<le> quantum x"
  by (rule less_imp_le[OF quantum_pos])

lemma double_eq: "x \<noteq> 0 \<Longrightarrow> double x = sgn x * of_int (round_half_even (\<bar>x\<bar> / quantum x)) * quantum x"
  by (simp add: double_def)

lemma double_pos: "0 < x \<Longrightarrow> double x = of_int (round_half_even (x / quantum x)) * quantum x"
  by (simp add: double_eq)

lemma double_zero [simp]: "double 0 = 0"
  by (simp add: double_def)

lemma double_minus: "double (- x) = - double x"
  by (cases "x = 0") (simp_all add: double_eq quantum_def sgn_minus)

lemma double_nonneg:
  assumes "0 \<le> x"
  shows "0 \<le> double x"
proof (cases "x = 0")
  case True
  then show ?thesis by simp
next
  case False
  with assms have pos: "0 < x" by simp
  have "0 \<le> x / quantum x" using assms quantum_pos by (rule divide_nonneg_pos)
  then have "0 \<le> round_half_even (x / quantum x)" by (rule round_half_even_nonneg)
  then have "(0::rat) \<le> of_int (round_half_even (x / quantum x))" by simp
  then show ?thesis unfolding double_pos[OF pos] by (intro mult_nonneg_nonneg) simp_all
qed

lemma double_mono_pos:
  assumes "0 < x" "x \<le> y"
  shows "double x \<le> double y"
proof -
  have ypos: "0 < y" using assms by simp
  define ex where "ex = max (ilog2 x) (- 1022)"
  define ey where "ey = max (ilog2 y) (- 1022)"
  note dx = double_pos[OF assms(1)] and dy = double_pos[OF ypos]
  have qx: "quantum x = 2 powi (ex - 52)" using assms(1) by (simp add: quantum_def ex_def)
  have qy: "quantum y = 2 powi (ey - 52)" using ypos by (simp add: quantum_def ey_def)
  have le: "ex \<le> ey" using ilog2_mono[OF assms] unfolding ex_def ey_def by simp
  have ex_ge: "ilog2 x \<le> ex" "- 1022 \<le> ex" unfolding ex_def by simp_all
  show ?thesis
  proof (cases "ex = ey")
    case True
    then have q: "quantum x = quantum y" by (simp only: qx qy)
    have "x / quantum y \<le> y / quantum y"
      using assms(2) by (rule divide_right_mono) (rule less_imp_le[OF quantum_pos])
    then have "round_half_even (x / quantum y) \<le> round_half_even (y / quantum y)"
      by (rule round_half_even_mono)
    then have "(of_int (round_half_even (x / quantum y)) :: rat)
                 \<le> of_int (round_half_even (y / quantum y))"
      by (simp only: of_int_le_iff)
    then show ?thesis unfolding dx dy q
      by (rule mult_right_mono) (rule less_imp_le[OF quantum_pos])
  next
    case False
    have lt: "ex < ey" using le False by (rule le_neq_trans)
    have "- 1022 < ey" using ex_ge(2) lt by (rule le_less_trans)
    then have ey: "ey = ilog2 y" unfolding ey_def by (simp add: max_def split: if_splits)
    have "x < 2 powi (ilog2 x + 1)" using ilog2_bounds[OF assms(1)] by simp
    also have "\<dots> \<le> 2 powi (ex + 1)" using ex_ge(1) by (intro power_int_increasing) simp_all
    finally have xlt: "x < 2 powi (ex + 1)" .
    have top: "quantum x * 2 ^ 53 = 2 powi (ex + 1)"
      unfolding qx by (rule pow2_shift53)
    have "x < quantum x * 2 ^ 53" using xlt top by simp
    then have "x / quantum x < 2 ^ 53"
      using quantum_pos[of x] by (simp add: pos_divide_less_eq mult.commute)
    then have "x / quantum x \<le> of_int (2 ^ 53)" by simp
    then have "round_half_even (x / quantum x) \<le> round_half_even (of_int (2 ^ 53))"
      by (rule round_half_even_mono)
    then have "round_half_even (x / quantum x) \<le> 2 ^ 53" by (simp only: round_half_even_of_int)
    then have "(of_int (round_half_even (x / quantum x)) :: rat) \<le> of_int (2 ^ 53)"
      by (simp only: of_int_le_iff)
    then have "double x \<le> of_int (2 ^ 53) * quantum x"
      unfolding dx by (rule mult_right_mono) (rule less_imp_le[OF quantum_pos])
    also have "\<dots> = 2 powi (ex + 1)" using top by (simp add: mult.commute)
    also have "\<dots> \<le> 2 powi ey" using lt by (intro power_int_increasing) simp_all
    finally have upper: "double x \<le> 2 powi ey" .
    have low: "2 powi ey \<le> y" using ilog2_bounds[OF ypos] ey by simp
    have bot: "quantum y * 2 ^ 52 = 2 powi ey"
      unfolding qy by (rule pow2_shift52)
    have "quantum y * 2 ^ 52 \<le> y" using low bot by simp
    then have "2 ^ 52 \<le> y / quantum y"
      using quantum_pos[of y] by (simp add: pos_le_divide_eq mult.commute)
    then have "of_int (2 ^ 52) \<le> y / quantum y" by simp
    then have "round_half_even (of_int (2 ^ 52)) \<le> round_half_even (y / quantum y)"
      by (rule round_half_even_mono)
    then have "2 ^ 52 \<le> round_half_even (y / quantum y)" by (simp only: round_half_even_of_int)
    then have "(of_int (2 ^ 52) :: rat) \<le> of_int (round_half_even (y / quantum y))"
      by (simp only: of_int_le_iff)
    then have "of_int (2 ^ 52) * quantum y \<le> double y"
      unfolding dy by (rule mult_right_mono) (rule less_imp_le[OF quantum_pos])
    moreover have "of_int (2 ^ 52) * quantum y = 2 powi ey" using bot by (simp add: mult.commute)
    ultimately show ?thesis using upper by linarith
  qed
qed

lemma double_mono:
  assumes le: "x \<le> y"
  shows "double x \<le> double y"
proof -
  consider "0 < x" | "x \<le> 0" "0 \<le> y" | "y < 0" by linarith
  then show ?thesis
  proof cases
    case 1
    then show ?thesis using le by (rule double_mono_pos)
  next
    case 2
    have "0 \<le> - x" using 2 by simp
    then have "0 \<le> double (- x)" by (rule double_nonneg)
    then have "double x \<le> 0" by (simp add: double_minus)
    moreover have "0 \<le> double y" using 2 by (intro double_nonneg)
    ultimately show ?thesis by simp
  next
    case 3
    have "0 < - y" "- y \<le> - x" using 3 le by simp_all
    then have "double (- y) \<le> double (- x)" by (rule double_mono_pos)
    then show ?thesis by (simp add: double_minus)
  qed
qed

lemma double_of_int_pos:
  fixes k :: int
  assumes k: "0 < k" "k \<le> 2 ^ 53"
  shows "double (of_int k) = of_int k"
proof -
  define x :: rat where "x = of_int k"
  define e where "e = ilog2 x"
  have xpos: "0 < x" and x1: "1 \<le> x" using k by (simp_all add: x_def)
  have xle: "x \<le> 2 ^ 53" using k(2) unfolding x_def by (metis of_int_le_iff of_int_numeral of_int_power)
  have b: "2 powi e \<le> x" "x < 2 powi (e + 1)" using ilog2_bounds[OF xpos] by (simp_all add: e_def)
  have "2 powi 0 < (2::rat) powi (e + 1)" using b(2) x1 by simp
  then have "0 < e + 1" by (rule pow2_less_imp)
  then have e0: "0 \<le> e" by simp
  have "2 powi e < (2::rat) powi 54" using b(1) xle by simp
  then have "e < 54" by (rule pow2_less_imp)
  then have e53: "e \<le> 53" by simp
  have q: "quantum x = 2 powi (e - 52)" using xpos e0 by (simp add: quantum_def e_def)
  have "\<exists>j. x = of_int j * quantum x"
  proof (cases "e \<le> 52")
    case True
    define n where "n = nat (52 - e)"
    have "e - 52 = - int n" using True by (simp add: n_def)
    then have "quantum x = 1 / 2 ^ n" unfolding q by (simp add: power_int_minus_divide)
    then have "x = of_int (k * 2 ^ n) * quantum x" by (simp add: x_def)
    then show ?thesis by blast
  next
    case False
    with e53 have e: "e = 53" by simp
    then have "(2::rat) ^ 53 \<le> x" using b(1) by simp
    then have "x = 2 ^ 53" using xle by simp
    moreover have "quantum x = 2" by (simp add: q e)
    ultimately have "x = of_int (2 ^ 52) * quantum x" by simp
    then show ?thesis by blast
  qed
  then obtain j where j: "x = of_int j * quantum x" by blast
  have qne: "quantum x \<noteq> 0" using quantum_pos[of x] by (rule less_imp_neq[THEN not_sym])
  have "x / quantum x = of_int j" using j qne by (metis nonzero_mult_div_cancel_right)
  then have "double x = of_int j * quantum x"
    using double_pos[OF xpos] by (simp only: round_half_even_of_int)
  then show ?thesis using j by (simp add: x_def)
qed

lemma double_of_int:
  assumes "\<bar>n\<bar> \<le> 2 ^ 53"
  shows "double (of_int n) = of_int n"
proof -
  consider "n = 0" | "0 < n" | "n < 0" by linarith
  then show ?thesis
  proof cases
    case 1
    then show ?thesis by simp
  next
    case 2
    then show ?thesis using assms by (intro double_of_int_pos) simp_all
  next
    case 3
    then have "double (of_int (- n)) = of_int (- n)" using assms by (intro double_of_int_pos) simp_all
    then show ?thesis using double_minus[of "of_int n"] by simp
  qed
qed


text \<open>The double of a number, from its binary exponent \<open>e\<close> and the significand \<open>k\<close> that
  is nearest to it.\<close>

lemma double_certificate:
  assumes "2 powi e \<le> \<bar>x\<bar>" "\<bar>x\<bar> < 2 powi (e + 1)" "- 1022 \<le> e"
    and "\<bar>\<bar>x\<bar> / 2 powi (e - 52) - of_int k\<bar> < 1 / 2"
  shows "double x = sgn x * of_int k * 2 powi (e - 52)"
proof -
  have e: "ilog2 \<bar>x\<bar> = e" using assms(1,2) by (rule ilog2_unique)
  have "(0::rat) < 2 powi e" by simp
  then have "0 < \<bar>x\<bar>" using assms(1) by linarith
  then have "x \<noteq> 0" by simp
  moreover have "quantum x = 2 powi (e - 52)" using assms(3) by (simp add: quantum_def e)
  moreover have "round_half_even (\<bar>x\<bar> / 2 powi (e - 52)) = k"
    using assms(4) by (rule round_half_even_nearest)
  ultimately show ?thesis by (simp add: double_eq)
qed

lemma double_dyadic_pos:
  fixes k :: int
  assumes k: "0 < k" "k < 2 ^ 53" and j: "- 1074 \<le> j"
  shows "double (of_int k * 2 powi j) = of_int k * 2 powi j"
proof -
  define x :: rat where "x = of_int k * 2 powi j"
  define ek where "ek = ilog2 (of_int k)"
  have kpos: "(0::rat) < of_int k" and k1: "(1::rat) \<le> of_int k" using k by simp_all
  have xpos: "0 < x" unfolding x_def using kpos by simp
  have bk: "2 powi ek \<le> (of_int k :: rat)" "(of_int k :: rat) < 2 powi (ek + 1)"
    using ilog2_bounds[OF kpos] by (simp_all add: ek_def)
  have "2 powi 0 < (2::rat) powi (ek + 1)" using bk(2) k1 by simp
  then have "0 < ek + 1" by (rule pow2_less_imp)
  then have ek0: "0 \<le> ek" by simp
  have "(of_int k :: rat) < of_int (2 ^ 53)" using k(2) by (simp only: of_int_less_iff)
  then have "2 powi ek < (2::rat) powi 53" using bk(1) by simp
  then have "ek < 53" by (rule pow2_less_imp)
  then have ek52: "ek \<le> 52" by simp
  have "2 powi (ek + j) \<le> x"
    unfolding x_def pow2_add using bk(1) by (intro mult_right_mono) simp_all
  moreover have "x < 2 powi (ek + j + 1)"
  proof -
    have "of_int k * 2 powi j < 2 powi (ek + 1) * (2::rat) powi j"
      using bk(2) by (intro mult_strict_right_mono) simp_all
    also have "\<dots> = 2 powi (ek + 1 + j)" by (simp only: pow2_add)
    also have "ek + 1 + j = ek + j + 1" by simp
    finally show ?thesis unfolding x_def .
  qed
  ultimately have e: "ilog2 x = ek + j" by (rule ilog2_unique)
  define E where "E = max (ek + j) (- 1022)"
  define m where "m = j - E + 52"
  have q: "quantum x = 2 powi (E - 52)" using xpos by (simp add: quantum_def e E_def)
  have m0: "0 \<le> m" using ek52 j unfolding m_def E_def by (simp add: max_def)
  have "j = m + (E - 52)" by (simp add: m_def)
  then have "(2::rat) powi j = 2 powi m * 2 powi (E - 52)" by (simp only: pow2_add)
  also have "(2::rat) powi m = of_int (2 ^ nat m)" using m0 by (simp add: power_int_nonneg_exp)
  finally have pj: "(2::rat) powi j = of_int (2 ^ nat m) * 2 powi (E - 52)" .
  have x0: "x = of_int (k * 2 ^ nat m) * 2 powi (E - 52)" unfolding x_def pj by simp
  have x: "x = of_int (k * 2 ^ nat m) * quantum x" unfolding q by (rule x0)
  then have "x / quantum x = of_int (k * 2 ^ nat m)"
    by (metis nonzero_mult_div_cancel_right quantum_neq_0)
  then have "double x = of_int (k * 2 ^ nat m) * quantum x"
    using double_pos[OF xpos] by (simp only: round_half_even_of_int)
  also have "\<dots> = x" by (rule x[symmetric])
  finally show ?thesis unfolding x_def .
qed

lemma double_dyadic:
  assumes "\<bar>k\<bar> < 2 ^ 53" "- 1074 \<le> j"
  shows "double (of_int k * 2 powi j) = of_int k * 2 powi j"
proof -
  consider "k = 0" | "0 < k" | "k < 0" by linarith
  then show ?thesis
  proof cases
    case 1
    then show ?thesis by simp
  next
    case 2
    then show ?thesis using assms by (intro double_dyadic_pos) simp_all
  next
    case 3
    then have "double (of_int (- k) * 2 powi j) = of_int (- k) * 2 powi j"
      using assms by (intro double_dyadic_pos) simp_all
    then show ?thesis using double_minus[of "of_int k * 2 powi j"] by simp
  qed
qed

lemma double_numeral: "numeral w \<le> (2::int) ^ 53 \<Longrightarrow> double (numeral w) = numeral w"
  using double_of_int[of "numeral w"] by simp

lemma floor_numeral_div_rat: "\<lfloor>numeral a / numeral b :: rat\<rfloor> = numeral a div numeral b"
  using floor_divide_of_int_eq[of "numeral a" "numeral b", where ?'a = rat] by simp

lemma double_10_21: "double (10 ^ 21) = 10 ^ 21"
  using double_dyadic[of 476837158203125 21] by simp

lemma double_10_20: "double (10 ^ 20) = 10 ^ 20"
  using double_dyadic[of 95367431640625 20] by simp


subsection \<open>The operators\<close>

lemma js_div_mono: "0 < c \<Longrightarrow> a \<le> b \<Longrightarrow> js_div a c \<le> js_div b c"
  unfolding js_div_def by (intro double_mono divide_right_mono) simp_all

lemma js_mul_mono: "0 \<le> c \<Longrightarrow> a \<le> b \<Longrightarrow> js_mul a c \<le> js_mul b c"
  unfolding js_mul_def by (intro double_mono mult_right_mono)

lemma js_add_mono: "a \<le> a' \<Longrightarrow> b \<le> b' \<Longrightarrow> js_add a b \<le> js_add a' b'"
  unfolding js_add_def by (intro double_mono add_mono)


text \<open>Above \<open>2^53\<close> not every whole number is a double: \<^verbatim>\<open>2 ** 53 + 1\<close> is \<^verbatim>\<open>2 ** 53\<close>.\<close>

lemma js_add_rounds: "js_add (2 ^ 53) 1 = 2 ^ 53"
proof -
  have e: "ilog2 9007199254740993 = 53" by (rule ilog2_unique) simp_all
  have q: "quantum 9007199254740993 = 2" by (simp add: quantum_def e)
  have r: "round_half_even (9007199254740993 / 2) = 4503599627370496"
    by (simp add: round_half_even_def Let_def floor_numeral_div_rat)
  show ?thesis by (simp add: js_add_def double_def q r)
qed


section \<open>Properties of the fee estimator\<close>

subsection \<open>The gas prices are sorted descending\<close>

lemma sorted_desc_blockGasPrices: "sorted (map uminus (blockGasPrices txs))"
  unfolding blockGasPrices_def by (rule sorted_sort_key)

lemma sorted_desc_nth:
  fixes xs :: "number list"
  assumes "sorted (map uminus xs)" "i \<le> j" "j < length xs"
  shows "xs ! j \<le> xs ! i"
proof -
  have "map uminus xs ! i \<le> map uminus xs ! j"
    using assms by (intro sorted_nth_mono) auto
  then show ?thesis using assms by simp
qed


subsection \<open>The median and the rounding are monotone\<close>

lemma median_odd: "odd (length ys) \<Longrightarrow> median ys = Some (ys ! (length ys div 2))"
  by (auto simp: median_def Let_def)

lemma median_even:
  "ys \<noteq> [] \<Longrightarrow> even (length ys) \<Longrightarrow>
     median ys = Some (js_div (js_add (ys ! (length ys div 2 - 1)) (ys ! (length ys div 2))) 2)"
  by (simp add: median_def Let_def)

lemma hundredths_mono:
  fixes x y :: rat
  shows "x \<le> y \<Longrightarrow> double (of_int \<lfloor>x * 100 + 1 / 2\<rfloor> / 100)
                       \<le> double (of_int \<lfloor>y * 100 + 1 / 2\<rfloor> / 100)"
  by (intro double_mono divide_right_mono) (simp_all add: floor_mono)

lemma hundredths_nonneg:
  fixes x :: rat
  shows "0 \<le> x \<Longrightarrow> 0 \<le> double (of_int \<lfloor>x * 100 + 1 / 2\<rfloor> / 100)"
  by (intro double_nonneg) simp

lemma hundredths_below:
  fixes x :: rat
  assumes "x < 10 ^ 21"
  shows "double (of_int \<lfloor>x * 100 + 1 / 2\<rfloor> / 100) \<le> 10 ^ 21"
proof -
  have "x * 100 + 1 / 2 < of_int (10 ^ 23 + 1)" using assms by simp
  then have "\<lfloor>x * 100 + 1 / 2\<rfloor> < 10 ^ 23 + 1" by (simp only: floor_less_iff)
  then have "\<lfloor>x * 100 + 1 / 2\<rfloor> \<le> 10 ^ 23" by simp
  then have "(of_int \<lfloor>x * 100 + 1 / 2\<rfloor> :: rat) \<le> of_int (10 ^ 23)" by (simp only: of_int_le_iff)
  then have "(of_int \<lfloor>x * 100 + 1 / 2\<rfloor> :: rat) / 100 \<le> 10 ^ 21" by simp
  then have "double (of_int \<lfloor>x * 100 + 1 / 2\<rfloor> / 100) \<le> double (10 ^ 21)" by (rule double_mono)
  then show ?thesis by (simp only: double_10_21)
qed

lemma toFixed2_mono:
  assumes "x \<le> y"
  shows "toFixed2 x \<le> toFixed2 y"
proof -
  define r where "r = (\<lambda>z::rat. double (of_int \<lfloor>z * 100 + 1 / 2\<rfloor> / 100))"
  have r_mono: "\<And>a b. a \<le> b \<Longrightarrow> r a \<le> r b" unfolding r_def by (rule hundredths_mono)
  have r_nonneg: "\<And>a. 0 \<le> a \<Longrightarrow> 0 \<le> r a" unfolding r_def by (rule hundredths_nonneg)
  have r_below: "\<And>a. a < 10 ^ 21 \<Longrightarrow> r a \<le> 10 ^ 21" unfolding r_def by (rule hundredths_below)
  have tf: "\<And>z. toFixed2 z = (if 10 ^ 21 \<le> \<bar>z\<bar> then z else if z < 0 then - r (- z) else r z)"
    unfolding toFixed2_def r_def by simp
  consider (big_x) "10 ^ 21 \<le> \<bar>x\<bar>" "10 ^ 21 \<le> \<bar>y\<bar>"
    | (bx) "10 ^ 21 \<le> \<bar>x\<bar>" "\<bar>y\<bar> < 10 ^ 21"
    | (by') "\<bar>x\<bar> < 10 ^ 21" "10 ^ 21 \<le> \<bar>y\<bar>"
    | (small) "\<bar>x\<bar> < 10 ^ 21" "\<bar>y\<bar> < 10 ^ 21"
    by linarith
  then show ?thesis
  proof cases
    case big_x
    then show ?thesis using assms by (simp add: tf)
  next
    case bx
    then have xneg: "x \<le> - (10 ^ 21)" using assms by linarith
    show ?thesis
    proof (cases "y < 0")
      case True
      have "r (- y) \<le> 10 ^ 21" using bx by (intro r_below) linarith
      then show ?thesis using bx True xneg by (simp add: tf)
    next
      case False
      then have "0 \<le> r y" by (intro r_nonneg) simp
      then show ?thesis using bx False xneg by (simp add: tf)
    qed
  next
    case by'
    then have ypos: "10 ^ 21 \<le> y" using assms by linarith
    show ?thesis
    proof (cases "x < 0")
      case True
      then have "0 \<le> r (- x)" by (intro r_nonneg) simp
      then show ?thesis using by' True ypos by (simp add: tf)
    next
      case False
      have "r x \<le> 10 ^ 21" using by' by (intro r_below) linarith
      then show ?thesis using by' False ypos by (simp add: tf)
    qed
  next
    case small
    show ?thesis
    proof (cases "y < 0")
      case True
      then have "x < 0" using assms by simp
      moreover have "r (- y) \<le> r (- x)" using assms by (intro r_mono) simp
      ultimately show ?thesis using small True by (simp add: tf)
    next
      case ynn: False
      show ?thesis
      proof (cases "x < 0")
        case True
        have "0 \<le> r (- x)" using True by (intro r_nonneg) simp
        moreover have "0 \<le> r y" using ynn by (intro r_nonneg) simp
        ultimately show ?thesis using small True ynn by (simp add: tf)
      next
        case False
        have "r x \<le> r y" using assms by (rule r_mono)
        then show ?thesis using small False ynn by (simp add: tf)
      qed
    qed
  qed
qed

lemma feerate_of_Some: "feerate_of (Some m) = js_mul (toFixed2 (js_div m (10 ^ 9))) (10 ^ 9)"
  by (simp add: feerate_of_def truthy_number_def)

lemma feerate_of_mono: "a \<le> b \<Longrightarrow> feerate_of (Some a) \<le> feerate_of (Some b)"
  unfolding feerate_of_Some by (intro js_mul_mono toFixed2_mono js_div_mono) simp_all

lemma quartile_first_last:
  fixes xs :: "number list"
  assumes srt: "sorted (map uminus xs)"
  shows "feerate_of (getNthQuartileMedian xs 4) \<le> feerate_of (getNthQuartileMedian xs 1)"
proof -
  define q where "q = length xs div 4"
  define Q1 where "Q1 = take q xs"
  define Q4 where "Q4 = take q (drop (3 * q) xs)"
  have g1: "getNthQuartileMedian xs 1 = median Q1"
    by (simp add: getNthQuartileMedian_def Q1_def q_def)
  have g4: "getNthQuartileMedian xs 4 = median Q4"
    by (simp add: getNthQuartileMedian_def Q4_def q_def Let_def)
  have len1: "length Q1 = q" unfolding Q1_def q_def by simp
  have len4: "length Q4 = q" unfolding Q4_def q_def by simp
  have four: "4 * q \<le> length xs" unfolding q_def by simp
  have nth1: "\<And>a. a < q \<Longrightarrow> Q1 ! a = xs ! a" unfolding Q1_def by simp
  have nth4: "\<And>a. a < q \<Longrightarrow> Q4 ! a = xs ! (3 * q + a)"
    unfolding Q4_def using four by simp
  have le: "Q4 ! a \<le> Q1 ! a" if "a < q" for a
  proof -
    have "xs ! (3 * q + a) \<le> xs ! a"
      using srt that four by (intro sorted_desc_nth) auto
    then show ?thesis using that by (simp add: nth1 nth4)
  qed
  show ?thesis
  proof (cases "q = 0")
    case True
    then show ?thesis by (simp add: g1 g4 Q1_def Q4_def)
  next
    case False
    then have ne: "Q1 \<noteq> []" "Q4 \<noteq> []" using len1 len4 by auto
    have mid: "q div 2 < q" using False by simp
    show ?thesis
    proof (cases "odd q")
      case True
      then have "median Q1 = Some (Q1 ! (q div 2))" "median Q4 = Some (Q4 ! (q div 2))"
        using median_odd[of Q1] median_odd[of Q4] by (simp_all add: len1 len4)
      then show ?thesis using le[OF mid] by (simp add: g1 g4 feerate_of_mono)
    next
      case even: False
      have low: "q div 2 - 1 < q" using False by arith
      have m1: "median Q1 = Some (js_div (js_add (Q1 ! (q div 2 - 1)) (Q1 ! (q div 2))) 2)"
        using median_even[OF ne(1)] even by (simp add: len1)
      have m4: "median Q4 = Some (js_div (js_add (Q4 ! (q div 2 - 1)) (Q4 ! (q div 2))) 2)"
        using median_even[OF ne(2)] even by (simp add: len4)
      have "js_div (js_add (Q4 ! (q div 2 - 1)) (Q4 ! (q div 2))) 2
              \<le> js_div (js_add (Q1 ! (q div 2 - 1)) (Q1 ! (q div 2))) 2"
        using le[OF low] le[OF mid] by (intro js_div_mono js_add_mono) simp_all
      then show ?thesis by (simp add: g1 g4 m1 m4 feerate_of_mono)
    qed
  qed
qed


subsection \<open>Fee rates of some medians\<close>

text \<open>
  A median of 1.009 gwei gives 1.01 gwei. A median of 1.005 gwei gives 1.00 gwei: the
  double of \<^verbatim>\<open>1005000000 / 1e9\<close> is below 1.005. A median of 1.07 gwei gives
  \<open>1070000000 + 1 / 2^23\<close> base units: the double of 1.07 is above 1.07, and so is its product
  by \<^verbatim>\<open>1e9\<close>.
\<close>

lemma feerate_of_1009: "feerate_of (Some 1009000000) = 1010000000"
proof -
  define G :: rat where "G = 2272066012008415 / 2251799813685248"
  define S :: rat where "S = 4548635623644201 / 4503599627370496"
  have g: "js_div 1009000000 (10 ^ 9) = G"
    unfolding js_div_def G_def
    using double_certificate[of 0 "1009000000 / 10 ^ 9" 4544132024016830] by simp
  have G: "0 < G" "G < 10 ^ 21" unfolding G_def by simp_all
  have n: "\<lfloor>G * 100 + 1 / 2\<rfloor> = 101" unfolding G_def by (simp add: floor_eq_iff)
  have s: "double (of_int 101 / 100) = S"
    unfolding S_def using double_certificate[of 0 "101 / 100" 4548635623644201] by simp
  have f: "js_mul S (10 ^ 9) = 1010000000"
    unfolding js_mul_def S_def
    using double_certificate[of 29 "4548635623644201 / 4503599627370496 * 10 ^ 9" 8472494080000000] by simp
  have "toFixed2 G = double (of_int \<lfloor>G * 100 + 1 / 2\<rfloor> / 100)"
    using G by (simp add: toFixed2_def)
  then have tf: "toFixed2 G = S" by (simp only: n s)
  show ?thesis unfolding feerate_of_Some g tf f by (rule refl)
qed

lemma feerate_of_1005: "feerate_of (Some 1005000000) = 1000000000"
proof -
  define G :: rat where "G = 1131529406376837 / 1125899906842624"
  define S :: rat where "S = 1"
  have g: "js_div 1005000000 (10 ^ 9) = G"
    unfolding js_div_def G_def
    using double_certificate[of 0 "1005000000 / 10 ^ 9" 4526117625507348] by simp
  have G: "0 < G" "G < 10 ^ 21" unfolding G_def by simp_all
  have n: "\<lfloor>G * 100 + 1 / 2\<rfloor> = 100" unfolding G_def by (simp add: floor_eq_iff)
  have s: "double (of_int 100 / 100) = S"
    unfolding S_def using double_certificate[of 0 "100 / 100" 4503599627370496] by simp
  have f: "js_mul S (10 ^ 9) = 1000000000"
    unfolding js_mul_def S_def
    using double_certificate[of 29 "1 * 10 ^ 9" 8388608000000000] by simp
  have "toFixed2 G = double (of_int \<lfloor>G * 100 + 1 / 2\<rfloor> / 100)"
    using G by (simp add: toFixed2_def)
  then have tf: "toFixed2 G = S" by (simp only: n s)
  show ?thesis unfolding feerate_of_Some g tf f by (rule refl)
qed

lemma feerate_of_1070: "feerate_of (Some 1070000000) = 8975810560000001 / 8388608"
proof -
  define G :: rat where "G = 4818851601286431 / 4503599627370496"
  define S :: rat where "S = 4818851601286431 / 4503599627370496"
  have g: "js_div 1070000000 (10 ^ 9) = G"
    unfolding js_div_def G_def
    using double_certificate[of 0 "1070000000 / 10 ^ 9" 4818851601286431] by simp
  have G: "0 < G" "G < 10 ^ 21" unfolding G_def by simp_all
  have n: "\<lfloor>G * 100 + 1 / 2\<rfloor> = 107" unfolding G_def by (simp add: floor_eq_iff)
  have s: "double (of_int 107 / 100) = S"
    unfolding S_def using double_certificate[of 0 "107 / 100" 4818851601286431] by simp
  have f: "js_mul S (10 ^ 9) = 8975810560000001 / 8388608"
    unfolding js_mul_def S_def
    using double_certificate[of 29 "4818851601286431 / 4503599627370496 * 10 ^ 9" 8975810560000001] by simp
  have "toFixed2 G = double (of_int \<lfloor>G * 100 + 1 / 2\<rfloor> / 100)"
    using G by (simp add: toFixed2_def)
  then have tf: "toFixed2 G = S" by (simp only: n s)
  show ?thesis unfolding feerate_of_Some g tf f by (rule refl)
qed

lemma feerate_of_1234: "feerate_of (Some 1234567890) = 1230000000"
proof -
  define G :: rat where "G = 5559999489367579 / 4503599627370496"
  define S :: rat where "S = 2769713770832855 / 2251799813685248"
  have g: "js_div 1234567890 (10 ^ 9) = G"
    unfolding js_div_def G_def
    using double_certificate[of 0 "1234567890 / 10 ^ 9" 5559999489367579] by simp
  have G: "0 < G" "G < 10 ^ 21" unfolding G_def by simp_all
  have n: "\<lfloor>G * 100 + 1 / 2\<rfloor> = 123" unfolding G_def by (simp add: floor_eq_iff)
  have s: "double (of_int 123 / 100) = S"
    unfolding S_def using double_certificate[of 0 "123 / 100" 5539427541665710] by simp
  have f: "js_mul S (10 ^ 9) = 1230000000"
    unfolding js_mul_def S_def
    using double_certificate[of 30 "2769713770832855 / 2251799813685248 * 10 ^ 9" 5158993920000000] by simp
  have "toFixed2 G = double (of_int \<lfloor>G * 100 + 1 / 2\<rfloor> / 100)"
    using G by (simp add: toFixed2_def)
  then have tf: "toFixed2 G = S" by (simp only: n s)
  show ?thesis unfolding feerate_of_Some g tf f by (rule refl)
qed


subsection \<open>The selected quartile\<close>

text \<open>
  Claim C1, as the code has it: \<^verbatim>\<open>getFee\<close> asks for the median of quartile
  \<open>min target 4\<close> of the sorted gas prices when \<open>target\<close> is given and not 0, of
  quartile 1 when \<open>target\<close> is 0, and of quartile 4 when \<open>target\<close> is undefined
  (the parameter then defaults to 4); the fee rate is computed from that median and
  \<open>blocks\<close> is the target.
\<close>

theorem getFee_quartile:
  "getFee getGlobalOrRefresh quartileMedianOf chain collection params =
     (let target = (case fp_target params of None \<Rightarrow> 4 | Some t \<Rightarrow> t);
          network = (if fp_network params = ''livenet'' then ''mainnet'' else fp_network params);
          quartile = (case fp_target params of
                        None \<Rightarrow> 4
                      | Some t \<Rightarrow> if t = 0 then 1 else min t 4)
      in getGlobalOrRefresh (''getFee-'' @ chain @ ''-'' @ network @ ''-'' @ string_of_int target)
           \<lparr>feerate =
              feerate_of (quartileMedianOf (blockGasPrices (find_fee_txs collection chain network))
                 quartile),
            blocks = target\<rparr>)"
  by (cases "fp_target params")
     (simp_all add: getFee_def getFee_refresh_def whichQuartile_def Let_def min_def)


text \<open>
  With \<open>target\<close> undefined the quartile asked for is 4, not 1: a quartile function
  that answers quartile \<open>n\<close> with \<open>n\<close> gwei makes the estimate 4 gwei.
\<close>

theorem getFee_quartile_counterexample:
  "feerate (getFee (\<lambda>key v. v) (\<lambda>prices n. Some (of_int n * 10 ^ 9)) ''ETH'' []
              \<lparr>fp_network = ''mainnet'', fp_target = None\<rparr>) = 4 * 10 ^ 9
   \<and> feerate (getFee (\<lambda>key v. v) (\<lambda>prices n. Some (of_int n * 10 ^ 9)) ''ETH'' []
              \<lparr>fp_network = ''mainnet'', fp_target = None\<rparr>) \<noteq> 1 * 10 ^ 9"
  by (simp add: getFee_def getFee_refresh_def whichQuartile_def feerate_of_Some js_div_def
      js_mul_def toFixed2_def double_numeral floor_numeral_div_rat)


subsection \<open>Rounding of the quartile median\<close>

lemma nearest_hundredth:
  fixes y :: rat
  shows "\<bar>of_int \<lfloor>y * 100 + 1 / 2\<rfloor> / 100 - y\<bar> \<le> 1 / 200"
proof -
  define f :: rat where "f = of_int \<lfloor>y * 100 + 1 / 2\<rfloor>"
  have "f \<le> y * 100 + 1 / 2" unfolding f_def by (rule of_int_floor_le)
  moreover have "y * 100 + 1 / 2 < f + 1" unfolding f_def by linarith
  ultimately have "f / 100 - y \<le> 1 / 200" "- (f / 100 - y) \<le> 1 / 200" by linarith+
  then have "\<bar>f / 100 - y\<bar> \<le> 1 / 200" by (rule abs_leI)
  then show ?thesis unfolding f_def .
qed

lemma js_div_gwei_bound:
  assumes "\<bar>m\<bar> < 10 ^ 29"
  shows "\<bar>js_div m (10 ^ 9)\<bar> < 10 ^ 21"
proof -
  have up: "m / 10 ^ 9 \<le> 10 ^ 20" and lo: "- (10 ^ 20) \<le> m / 10 ^ 9"
    using assms by (simp_all add: field_simps)
  have "double (m / 10 ^ 9) \<le> double (10 ^ 20)" using up by (rule double_mono)
  moreover have "double (- (10 ^ 20)) \<le> double (m / 10 ^ 9)" using lo by (rule double_mono)
  ultimately have "double (m / 10 ^ 9) \<le> 10 ^ 20" "- (10 ^ 20) \<le> double (m / 10 ^ 9)"
    by (simp_all only: double_minus double_10_20)
  then show ?thesis unfolding js_div_def by (simp add: abs_less_iff)
qed


text \<open>
  Claim C7, as the code has it: for a quartile median \<open>m\<close> below \<open>10^29\<close> in magnitude,
  with \<open>gwei\<close> the double quotient of \<open>m\<close> by \<^verbatim>\<open>1e9\<close>, the fee rate is the double product
  by \<^verbatim>\<open>1e9\<close> of the double of \<open>n / 100\<close>, with the sign of \<open>gwei\<close>, where \<open>n / 100\<close> is the
  hundredth nearest to \<open>\<bar>gwei\<bar>\<close> (the upper one on a tie): it is within half a hundredth
  of \<open>\<bar>gwei\<bar>\<close>, above it or below it. The median is rounded to the nearest hundredth of
  a gwei, not down.
\<close>

theorem getFee_feerate_rounding:
  assumes "quartileMedianOf (blockGasPrices (find_fee_txs collection chain network))
             (whichQuartile target) = Some m"
    and "\<bar>m\<bar> < 10 ^ 29"
  shows "(let gwei = js_div m (10 ^ 9);
              n = \<lfloor>\<bar>gwei\<bar> * 100 + 1 / 2\<rfloor>
          in feerate (getFee_refresh quartileMedianOf collection chain network target) =
               js_mul (sgn gwei * double (of_int n / 100)) (10 ^ 9)
             \<and> \<bar>of_int n / 100 - \<bar>gwei\<bar>\<bar> \<le> 1 / 200)"
proof -
  define gwei where "gwei = js_div m (10 ^ 9)"
  have small: "\<bar>gwei\<bar> < 10 ^ 21" unfolding gwei_def using assms(2) by (rule js_div_gwei_bound)
  have fee: "feerate (getFee_refresh quartileMedianOf collection chain network target) =
               js_mul (toFixed2 gwei) (10 ^ 9)"
    using assms(1) by (simp add: getFee_refresh_def Let_def feerate_of_Some gwei_def)
  have zero: "\<lfloor>1 / 2 :: rat\<rfloor> = 0" by (simp add: floor_eq_iff)
  have "toFixed2 gwei = sgn gwei * double (of_int \<lfloor>\<bar>gwei\<bar> * 100 + 1 / 2\<rfloor> / 100)"
  proof -
    consider "gwei < 0" | "gwei = 0" | "0 < gwei" by linarith
    then show ?thesis
    proof cases
      case 1
      then show ?thesis using small by (simp add: toFixed2_def)
    next
      case 2
      then show ?thesis by (simp add: toFixed2_def zero)
    next
      case 3
      then show ?thesis using small by (simp add: toFixed2_def)
    qed
  qed
  then show ?thesis
    unfolding Let_def gwei_def[symmetric] fee using nearest_hundredth[of "\<bar>gwei\<bar>"] by simp
qed

theorem getFee_feerate_rounding_witness:
  "feerate (getFee_refresh (\<lambda>prices n. Some 1234567890) [] ''ETH'' ''mainnet'' 1) = 1230000000"
proof -
  have g: "js_div 1234567890 (10 ^ 9) = 5559999489367579 / 2 ^ 52"
    unfolding js_div_def
    using double_certificate[of 0 "1234567890 / 10 ^ 9" 5559999489367579] by simp
  have n: "\<lfloor>\<bar>5559999489367579 / 2 ^ 52 :: rat\<bar> * 100 + 1 / 2\<rfloor> = 123"
    by (simp add: floor_eq_iff)
  have s: "double (of_int 123 / 100) = 2769713770832855 / 2 ^ 51"
    using double_certificate[of 0 "123 / 100" 5539427541665710] by simp
  have f: "js_mul (2769713770832855 / 2 ^ 51) (10 ^ 9) = 1230000000"
    unfolding js_mul_def
    using double_certificate[of 30 "2769713770832855 / 2 ^ 51 * 10 ^ 9" 5158993920000000] by simp
  have sg: "sgn (5559999489367579 / 2 ^ 52 :: rat) = 1" by simp
  show ?thesis
    using getFee_feerate_rounding [of "\<lambda>prices n. Some 1234567890" "[]" "''ETH''" "''mainnet''" 1
        1234567890]
    unfolding Let_def g n s sg using f by simp
qed


text \<open>
  A quartile median of 1.009 gwei: the fee rate is 1.01 gwei, above the median, where
  truncation to hundredths of a gwei gives 1.00 gwei.
\<close>

theorem getFee_feerate_truncation_counterexample:
  "feerate (getFee_refresh (\<lambda>prices n. Some 1009000000) [] ''ETH'' ''mainnet'' 1) = 1010000000
   \<and> rat_of_int \<lfloor>1009000000 / 10 ^ 7 :: rat\<rfloor> * 10 ^ 7 = 1000000000"
  by (simp add: getFee_refresh_def feerate_of_1009 floor_numeral_div_rat)


subsection \<open>Target 1 against target 4\<close>

text \<open>
  Claim C6: for every collection of transactions, chain and network, the fee rate
  estimated for target 1 is at least the fee rate estimated for target 4: for the
  producer, and for \<^verbatim>\<open>getFee\<close> when the cache hands back what the producer computes.
\<close>

theorem getFee_target_1_ge_target_4:
  "feerate (getFee_refresh getNthQuartileMedian collection chain network 4)
     \<le> feerate (getFee_refresh getNthQuartileMedian collection chain network 1)
   \<and> feerate (getFee (\<lambda>key producer. producer) getNthQuartileMedian chain collection
                 \<lparr>fp_network = network, fp_target = Some 4\<rparr>)
     \<le> feerate (getFee (\<lambda>key producer. producer) getNthQuartileMedian chain collection
                 \<lparr>fp_network = network, fp_target = Some 1\<rparr>)"
  using quartile_first_last [OF sorted_desc_blockGasPrices]
  by (simp add: getFee_def getFee_refresh_def whichQuartile_def Let_def)

theorem getFee_target_1_ge_target_4_witness:
  "feerate (getFee_refresh getNthQuartileMedian
      [fee_sample 3000000000 10, fee_sample 8000000000 11, fee_sample 1000000000 12,
       fee_sample 6000000000 13, fee_sample 2000000000 14, fee_sample 7000000000 15,
       fee_sample 5000000000 16, fee_sample 4000000000 17] ''ETH'' ''mainnet'' 4) = 1500000000
   \<and> feerate (getFee_refresh getNthQuartileMedian
      [fee_sample 3000000000 10, fee_sample 8000000000 11, fee_sample 1000000000 12,
       fee_sample 6000000000 13, fee_sample 2000000000 14, fee_sample 7000000000 15,
       fee_sample 5000000000 16, fee_sample 4000000000 17] ''ETH'' ''mainnet'' 1) = 7500000000"
proof -
  let ?collection =
    "[fee_sample 3000000000 10, fee_sample 8000000000 11, fee_sample 1000000000 12,
      fee_sample 6000000000 13, fee_sample 2000000000 14, fee_sample 7000000000 15,
      fee_sample 5000000000 16, fee_sample 4000000000 17]"
  have prices: "blockGasPrices (find_fee_txs ?collection ''ETH'' ''mainnet'') =
      [8000000000, 7000000000, 6000000000, 5000000000, 4000000000, 3000000000, 2000000000,
       1000000000]"
    by code_simp
  have halves: "double (15 / 2) = 15 / 2" "double (3 / 2) = 3 / 2"
    using double_dyadic[of 15 "- 1"] double_dyadic[of 3 "- 1"] by simp_all
  have low: "feerate (getFee_refresh getNthQuartileMedian ?collection ''ETH'' ''mainnet'' 4) =
               1500000000"
    unfolding getFee_refresh_def Let_def prices
    by (simp add: whichQuartile_def getNthQuartileMedian_def median_def feerate_of_Some
        js_add_def js_div_def js_mul_def toFixed2_def double_numeral halves floor_numeral_div_rat)
  have high: "feerate (getFee_refresh getNthQuartileMedian ?collection ''ETH'' ''mainnet'' 1) =
                7500000000"
    unfolding getFee_refresh_def Let_def prices
    by (simp add: whichQuartile_def getNthQuartileMedian_def median_def feerate_of_Some
        js_add_def js_div_def js_mul_def toFixed2_def double_numeral halves floor_numeral_div_rat)
  show ?thesis
    using getFee_target_1_ge_target_4 [of ?collection "''ETH''" "''mainnet''"] low high by simp
qed


section \<open>Properties of the token-transfer filter\<close>

lemma push_transfers_map:
  "push_transfers Number tx es pushed =
     pushed @ map (\<lambda>e. evm_tx.extend
                          (tx\<lparr>tx_value := Number (eff_amount e), tx_to := eff_to e,
                              tx_from := eff_from e\<rparr>)
                          (evm_tx_transformed.fields
                             (if eff_from e \<noteq> tx_from tx then Some (tx_from tx) else None))) es"
  by (induction es arbitrary: pushed)
     (simp_all add: Let_def assign_tx_def evm_tx.defs evm_tx_transformed.defs)

text \<open>
  Claim C2: for a requested token address, the records the filter pushes for an input
  transaction are, in order, one per effect whose contract address is the token: each
  the input record with its value, recipient and sender taken from the effect, and
  \<^verbatim>\<open>initialFrom\<close> set to the transaction's sender exactly when the effect's sender
  differs from it. A transaction without such an effect pushes nothing.
\<close>

theorem erc20_transform_outputs:
  "erc20_transform Number tokenAddress tx pushed =
     pushed @ map (\<lambda>e. evm_tx.extend
                          (tx\<lparr>tx_value := Number (eff_amount e), tx_to := eff_to e,
                              tx_from := eff_from e\<rparr>)
                          (evm_tx_transformed.fields
                             (if eff_from e \<noteq> tx_from tx then Some (tx_from tx) else None)))
                (filter (\<lambda>e. eff_contractAddress e = Some tokenAddress)
                   (case tx_effects tx of None \<Rightarrow> [] | Some effects \<Rightarrow> effects))"
  by (cases "tx_effects tx") (simp_all add: erc20_transform_def push_transfers_map Let_def)

theorem erc20_transform_outputs_witness:
  "map (\<lambda>out. (tx_value out, tx_from out, tx_to out, initialFrom out))
     (erc20_transform (\<lambda>amount. if amount = ''100'' then 100 else 5) ''T''
        (token_tx ''A''
           (Some [\<lparr>eff_to = ''B'', eff_from = ''A'', eff_amount = ''100'',
                    eff_contractAddress = Some ''T''\<rparr>,
                  \<lparr>eff_to = ''B'', eff_from = ''A'', eff_amount = ''5'',
                    eff_contractAddress = Some ''T2''\<rparr>])) [])
     = [(100, ''A'', ''B'', None)]
   \<and> map (\<lambda>out. (tx_value out, tx_from out, tx_to out, initialFrom out))
     (erc20_transform (\<lambda>amount. if amount = ''100'' then 100 else 5) ''T''
        (token_tx ''C''
           (Some [\<lparr>eff_to = ''B'', eff_from = ''A'', eff_amount = ''100'',
                    eff_contractAddress = Some ''T''\<rparr>,
                  \<lparr>eff_to = ''B'', eff_from = ''A'', eff_amount = ''5'',
                    eff_contractAddress = Some ''T2''\<rparr>])) [])
     = [(100, ''A'', ''B'', Some ''C'')]
   \<and> erc20_transform (\<lambda>amount. if amount = ''100'' then 100 else 5) ''T3''
        (token_tx ''C''
           (Some [\<lparr>eff_to = ''B'', eff_from = ''A'', eff_amount = ''100'',
                    eff_contractAddress = Some ''T''\<rparr>])) [] = []"
  using erc20_transform_outputs [where Number = "\<lambda>amount. if amount = ''100'' then 100 else 5"
      and tokenAddress = "''T''" and pushed = "[]"
      and tx = "token_tx ''A''
        (Some [\<lparr>eff_to = ''B'', eff_from = ''A'', eff_amount = ''100'',
                 eff_contractAddress = Some ''T''\<rparr>,
               \<lparr>eff_to = ''B'', eff_from = ''A'', eff_amount = ''5'',
                 eff_contractAddress = Some ''T2''\<rparr>])"]
    erc20_transform_outputs [where Number = "\<lambda>amount. if amount = ''100'' then 100 else 5"
      and tokenAddress = "''T''" and pushed = "[]"
      and tx = "token_tx ''C''
        (Some [\<lparr>eff_to = ''B'', eff_from = ''A'', eff_amount = ''100'',
                 eff_contractAddress = Some ''T''\<rparr>,
               \<lparr>eff_to = ''B'', eff_from = ''A'', eff_amount = ''5'',
                 eff_contractAddress = Some ''T2''\<rparr>])"]
    erc20_transform_outputs [where Number = "\<lambda>amount. if amount = ''100'' then 100 else 5"
      and tokenAddress = "''T3''" and pushed = "[]"
      and tx = "token_tx ''C''
        (Some [\<lparr>eff_to = ''B'', eff_from = ''A'', eff_amount = ''100'',
                 eff_contractAddress = Some ''T''\<rparr>])"]
  by (simp add: token_tx_def evm_tx.defs evm_tx_transformed.defs)

section \<open>Properties of the confirmations\<close>

lemma getTransaction_found:
  assumes "stp_txId params = JSString txId"
    and "\<not> falsy_string (stp_chain params)" "\<not> falsy_string (stp_network params)"
    and "getLocalTip (stp_chain params) (stp_network params) = Inr tip"
    and "find (\<lambda>tx. tx_chain tx = the (stp_chain params) \<and>
                      tx_network tx = toLowerCase (the (stp_network params)) \<and>
                      tx_txid tx = txId) collection = Some found"
    and "populateReceipt getReceipt found collection = (Inr found', collection')"
  shows "fst (fst (getTransaction getLocalTip getReceipt getEffects apiTransform params collection)) =
           Some \<lparr>convertedTx = apiTransform (populateEffects getEffects found'),
                 confirmations =
                   (case tx_blockHeight found of
                      None \<Rightarrow> 0
                    | Some h \<Rightarrow>
                        if 0 < h then (case tip of Some t \<Rightarrow> tip_height t | None \<Rightarrow> 0) - h + 1
                        else 0)\<rparr>"
  using assms by (auto simp: getTransaction_def Let_def split: option.splits)

lemma streamTransactions_transform_confirmations:
  "streamTransactions_transform tipHeight getEffects apiTransform stringify t =
     stringify
       \<lparr>convertedTx = apiTransform (populateEffects getEffects t),
        confirmations =
          (case tx_blockHeight t of
             None \<Rightarrow> 0
           | Some h \<Rightarrow> if h < 0 then 0 else tipHeight - h + 1)\<rparr>"
  by (simp add: streamTransactions_transform_def Let_def not_less split: option.splits)

text \<open>
  Claim C3 at block height 0: with the tip at height 100, \<^verbatim>\<open>getTransaction\<close> reports
  0 confirmations for a record of block height 0, where the claim and
  \<^verbatim>\<open>streamTransactions\<close> give \<open>100 - 0 + 1 = 101\<close>; at block height 95 it reports 6.
\<close>

theorem getTransaction_confirmations_at_height_0:
  "fst (getTransaction (tip_at 100) no_receipt (\<lambda>tx. []) tx_txid (tx_params (JSString ''0x1''))
          [(token_tx ''A'' None)\<lparr>tx_blockHeight := Some 0\<rparr>]) =
     (Some \<lparr>convertedTx = ''0x1'', confirmations = 0\<rparr>, [])
   \<and> streamTransactions_transform 100 (\<lambda>tx. []) tx_txid (\<lambda>json. json)
         ((token_tx ''A'' None)\<lparr>tx_blockHeight := Some 0\<rparr>) =
       \<lparr>convertedTx = ''0x1'', confirmations = 101\<rparr>
   \<and> fst (getTransaction (tip_at 100) no_receipt (\<lambda>tx. []) tx_txid (tx_params (JSString ''0x1''))
          [(token_tx ''A'' None)\<lparr>tx_blockHeight := Some 95\<rparr>]) =
     (Some \<lparr>convertedTx = ''0x1'', confirmations = 6\<rparr>, [])"
  by (simp add: getTransaction_def streamTransactions_transform_def tip_at_def no_receipt_def tx_params_def token_tx_def
      falsy_string_def toLowerCase_def lower_char_def populateReceipt_def populateEffects_def
      Let_def)

section \<open>Properties of the parameter validation\<close>

lemma getTransaction_invalid:
  assumes "(\<forall>s. stp_txId params \<noteq> JSString s) \<or> falsy_string (stp_chain params)
             \<or> falsy_string (stp_network params)"
  shows "getTransaction getLocalTip getReceipt getEffects apiTransform params collection =
           ((None, [Error ''Missing required param'' None]), collection)"
  using assms by (cases "stp_txId params") (auto simp: getTransaction_def)

text \<open>
  Claim C8 at an undefined transaction id: \<^verbatim>\<open>getTransaction\<close> logs the validation
  error and returns \<^verbatim>\<open>undefined\<close>, the result it also gives for a transaction that
  is not stored; no error reaches the caller. \<^verbatim>\<open>streamTransactions\<close> throws its
  validation error to the caller.
\<close>

theorem getTransaction_missing_param:
  "getTransaction (tip_at 100) no_receipt (\<lambda>tx. []) tx_txid (tx_params JSUndefined)
      [token_tx ''A'' None] =
     ((None, [Error ''Missing required param'' None]), [token_tx ''A'' None])
   \<and> getTransaction (tip_at 100) no_receipt (\<lambda>tx. []) tx_txid (tx_params (JSString ''0x2''))
      [token_tx ''A'' None] = ((None, []), [token_tx ''A'' None])
   \<and> streamTransactions (\<lambda>query args transform. ()) (tip_at 100) (\<lambda>tx. []) tx_txid (\<lambda>j. j)
        \<lparr>stsp_chain = None, stsp_network = Some ''mainnet'',
         stsp_args = \<lparr>sta_blockHash = None, sta_blockHeight = None\<rparr>\<rparr> =
       Inl (Error ''Missing chain or network'' None)"
  by (simp add: getTransaction_def streamTransactions_def tip_at_def no_receipt_def tx_params_def
      token_tx_def falsy_string_def toLowerCase_def lower_char_def Let_def)

section \<open>Properties of the wallet balance\<close>

subsection \<open>\<^verbatim>\<open>Promise.all\<close>\<close>

lemma Promise_all_fulfilled: "Promise_all settled (map Inr vs) = Inr vs"
proof -
  have none: "find (\<lambda>i. i < length vs \<and> isl (map Inr vs ! i)) xs = None" for xs :: "nat list"
    by (induction xs) simp_all
  have "map projr (map Inr vs) = vs" by (simp add: map_idI)
  then show ?thesis by (simp add: Promise_all_def none)
qed

lemma Promise_all_rejected:
  assumes "i < length ps" "ps ! i = Inl err"
  shows "\<exists>j err'. j < length ps \<and> ps ! j = Inl err' \<and> Promise_all settled ps = Inl err'"
proof -
  have "i \<in> set (settled @ [0..<length ps])" using assms(1) by simp
  moreover have "i < length ps \<and> isl (ps ! i)" using assms by simp
  ultimately have "find (\<lambda>i. i < length ps \<and> isl (ps ! i)) (settled @ [0..<length ps]) \<noteq> None"
    unfolding find_None_iff by blast
  then obtain j where j: "find (\<lambda>i. i < length ps \<and> isl (ps ! i)) (settled @ [0..<length ps]) = Some j"
    by blast
  then have "j < length ps \<and> isl (ps ! j)" by (auto simp: find_Some_iff)
  then obtain err' where "j < length ps" "ps ! j = Inl err'" by (cases "ps ! j") auto
  moreover have "Promise_all settled ps = Inl err'"
    using j \<open>ps ! j = Inl err'\<close> by (simp add: Promise_all_def)
  ultimately show ?thesis by blast
qed

lemma Promise_all_first_settled:
  assumes "settled = pre @ j # post" "j < length ps" "ps ! j = Inl err"
    and "\<forall>k\<in>set pre. k < length ps \<longrightarrow> \<not> isl (ps ! k)"
  shows "Promise_all settled ps = Inl err"
proof -
  have "find (\<lambda>i. i < length ps \<and> isl (ps ! i)) (pre @ j # rest) = Some j" for rest
    using assms(4)
  proof (induction pre)
    case Nil
    show ?case using assms(2,3) by simp
  next
    case (Cons k pre)
    then show ?case by auto
  qed
  then show ?thesis using assms(1,3) by (simp add: Promise_all_def)
qed


subsection \<open>The sum of the balances\<close>

lemma foldl_balance_fields:
  "foldl (\<lambda>prev cur. \<lparr>confirmed = js_add (confirmed prev) (confirmed cur),
                        unconfirmed = js_add (unconfirmed prev) (unconfirmed cur),
                        balance = js_add (balance prev) (balance cur)\<rparr>)
         \<lparr>confirmed = c, unconfirmed = u, balance = b\<rparr> bs =
     \<lparr>confirmed = foldl js_add c (map confirmed bs),
      unconfirmed = foldl js_add u (map unconfirmed bs),
      balance = foldl js_add b (map balance bs)\<rparr>"
  by (induction bs arbitrary: c u b) simp_all

lemma foldl_js_add_exact:
  assumes "\<forall>x\<in>set xs. 0 \<le> x \<and> of_int \<lfloor>x\<rfloor> = x"
    and "0 \<le> acc" "of_int \<lfloor>acc\<rfloor> = acc" "acc + sum_list xs \<le> 2 ^ 53"
  shows "foldl js_add acc xs = acc + sum_list xs"
  using assms
proof (induction xs arbitrary: acc)
  case Nil
  then show ?case by simp
next
  case (Cons x xs)
  have x: "0 \<le> x" "of_int \<lfloor>x\<rfloor> = x" using Cons.prems(1) by simp_all
  have rest: "0 \<le> sum_list xs" using Cons.prems(1) by (intro sum_list_nonneg) simp
  have whole: "acc + x = of_int (\<lfloor>acc\<rfloor> + \<lfloor>x\<rfloor>)"
    by (simp only: of_int_add x(2) Cons.prems(3))
  have "acc + x \<le> 2 ^ 53" using Cons.prems(4) rest by simp
  then have "of_int (\<lfloor>acc\<rfloor> + \<lfloor>x\<rfloor>) \<le> (of_int (2 ^ 53) :: rat)" unfolding whole by simp
  then have le: "\<lfloor>acc\<rfloor> + \<lfloor>x\<rfloor> \<le> 2 ^ 53" by (simp only: of_int_le_iff)
  have "0 \<le> acc + x" using x(1) Cons.prems(2) by simp
  then have "(of_int 0 :: rat) \<le> of_int (\<lfloor>acc\<rfloor> + \<lfloor>x\<rfloor>)" unfolding whole by simp
  then have ge: "0 \<le> \<lfloor>acc\<rfloor> + \<lfloor>x\<rfloor>" by (simp only: of_int_le_iff)
  have "double (of_int (\<lfloor>acc\<rfloor> + \<lfloor>x\<rfloor>)) = of_int (\<lfloor>acc\<rfloor> + \<lfloor>x\<rfloor>)"
    using le ge by (intro double_of_int) simp
  then have step: "js_add acc x = acc + x" unfolding js_add_def whole .
  have "foldl js_add (acc + x) xs = (acc + x) + sum_list xs"
  proof (rule Cons.IH)
    show "\<forall>x\<in>set xs. 0 \<le> x \<and> of_int \<lfloor>x\<rfloor> = x" using Cons.prems(1) by simp
    show "0 \<le> acc + x" by fact
    show "of_int \<lfloor>acc + x\<rfloor> = acc + x" unfolding whole by simp
    show "acc + x + sum_list xs \<le> 2 ^ 53" using Cons.prems(4) by (simp add: add.assoc)
  qed
  then show ?case by (simp add: step add.assoc)
qed

lemma whole_amounts_sum: "whole_amounts xs \<Longrightarrow> foldl js_add 0 xs = sum_list xs"
  using foldl_js_add_exact[of xs 0] by (simp add: whole_amounts_def)


text \<open>
  Claim C4: a call for a wallet without an id fails with an error. For a wallet with an
  id whose addresses all have a balance result, in whatever order the lookups settle,
  \<^verbatim>\<open>getWalletBalance\<close> returns, for each of the confirmed, unconfirmed and total
  balances, the sum of the addresses' amounts added from 0 in the order of the
  addresses with the addition of doubles; when the amounts of a field are whole,
  not negative and sum to \<open>2^53\<close> at most, this is their exact sum.
\<close>

theorem getWalletBalance_sum:
  "(wallet_id (gwb_wallet params) = None \<longrightarrow>
      getWalletBalance chain getWalletAddresses getBalanceForAddress settled params =
        Inl (Error ''Wallet balance can only be retrieved for wallets with the _id property''
               None))
   \<and> (wallet_id (gwb_wallet params) = Some wid \<and> getWalletAddresses wid = Inr addresses \<and>
        map (\<lambda>wa. getBalanceForAddress
                     \<lparr>gba_chain = chain, gba_network = gwb_network params,
                      gba_address = wa_address wa, gba_args = gwb_args params\<rparr>) addresses
          = map Inr addressBalances \<longrightarrow>
        getWalletBalance chain getWalletAddresses getBalanceForAddress settled params =
          Inr \<lparr>confirmed = foldl js_add 0 (map confirmed addressBalances),
               unconfirmed = foldl js_add 0 (map unconfirmed addressBalances),
               balance = foldl js_add 0 (map balance addressBalances)\<rparr>
        \<and> (whole_amounts (map confirmed addressBalances) \<and>
            whole_amounts (map unconfirmed addressBalances) \<and>
            whole_amounts (map balance addressBalances) \<longrightarrow>
            getWalletBalance chain getWalletAddresses getBalanceForAddress settled params =
              Inr \<lparr>confirmed = sum_list (map confirmed addressBalances),
                   unconfirmed = sum_list (map unconfirmed addressBalances),
                   balance = sum_list (map balance addressBalances)\<rparr>))"
  by (simp add: getWalletBalance_def Promise_all_fulfilled foldl_balance_fields whole_amounts_sum)

theorem getWalletBalance_sum_witness:
  "getWalletBalance ''ETH'' (\<lambda>wid. Inr [sample_address ''0xa'', sample_address ''0xb''])
      sample_balances [1, 0] (balance_params (Some ''w1'')) =
     Inr \<lparr>confirmed = 15, unconfirmed = 0, balance = 15\<rparr>
   \<and> getWalletBalance ''ETH'' (\<lambda>wid. Inr [sample_address ''0xa'', sample_address ''0xb''])
        sample_balances [1, 0] (balance_params None) =
       Inl (Error ''Wallet balance can only be retrieved for wallets with the _id property''
              None)"
  using getWalletBalance_sum [where params = "balance_params (Some ''w1'')" and chain = "''ETH''"
      and getWalletAddresses = "\<lambda>wid. Inr [sample_address ''0xa'', sample_address ''0xb'']"
      and getBalanceForAddress = sample_balances and wid = "''w1''" and settled = "[1, 0]"
      and addresses = "[sample_address ''0xa'', sample_address ''0xb'']"
      and addressBalances = "[\<lparr>confirmed = 10, unconfirmed = 0, balance = 10\<rparr>,
                              \<lparr>confirmed = 5, unconfirmed = 0, balance = 5\<rparr>]"]
    getWalletBalance_sum [where params = "balance_params None" and chain = "''ETH''"
      and getWalletAddresses = "\<lambda>wid. Inr [sample_address ''0xa'', sample_address ''0xb'']"
      and getBalanceForAddress = sample_balances and settled = "[1, 0]"]
  by (simp add: balance_params_def sample_address_def sample_balances_def whole_amounts_def
      js_add_def double_numeral)


subsection \<open>A lookup that fails\<close>

text \<open>
  Claim C5: if the balance lookup of an address of the wallet fails, then, in whatever
  order the lookups settle, the call fails with the error of a lookup that failed, and
  no balance is returned. It fails with the error of that very lookup when no other
  lookup fails, and when every lookup that settles before it succeeds.
\<close>

theorem getWalletBalance_lookup_failure:
  assumes "wallet_id (gwb_wallet params) = Some wid"
    and "getWalletAddresses wid = Inr addresses"
    and "i < length addresses"
    and "getBalanceForAddress
           \<lparr>gba_chain = chain, gba_network = gwb_network params,
            gba_address = wa_address (addresses ! i), gba_args = gwb_args params\<rparr> = Inl err"
  shows "(\<exists>j err'. j < length addresses
            \<and> getBalanceForAddress
                \<lparr>gba_chain = chain, gba_network = gwb_network params,
                 gba_address = wa_address (addresses ! j), gba_args = gwb_args params\<rparr> = Inl err'
            \<and> getWalletBalance chain getWalletAddresses getBalanceForAddress settled params =
                Inl err')
         \<and> ((\<forall>k<length addresses. k \<noteq> i \<longrightarrow> (\<exists>b. getBalanceForAddress
                  \<lparr>gba_chain = chain, gba_network = gwb_network params,
                   gba_address = wa_address (addresses ! k), gba_args = gwb_args params\<rparr> = Inr b))
              \<longrightarrow> getWalletBalance chain getWalletAddresses getBalanceForAddress settled params =
                    Inl err)
         \<and> (\<forall>pre post.
               settled = pre @ i # post \<and>
               (\<forall>k\<in>set pre. k < length addresses \<longrightarrow> (\<exists>b. getBalanceForAddress
                  \<lparr>gba_chain = chain, gba_network = gwb_network params,
                   gba_address = wa_address (addresses ! k), gba_args = gwb_args params\<rparr> = Inr b))
              \<longrightarrow> getWalletBalance chain getWalletAddresses getBalanceForAddress settled params =
                    Inl err)"
proof -
  define ps where "ps = map (\<lambda>wa. getBalanceForAddress
                     \<lparr>gba_chain = chain, gba_network = gwb_network params,
                      gba_address = wa_address wa, gba_args = gwb_args params\<rparr>) addresses"
  have i: "i < length ps" "ps ! i = Inl err" using assms(3,4) by (simp_all add: ps_def)
  from Promise_all_rejected[OF this, of settled] obtain j err' where
    j: "j < length ps" "ps ! j = Inl err'" "Promise_all settled ps = Inl err'"
    by blast
  have res: "getWalletBalance chain getWalletAddresses getBalanceForAddress settled params =
               Inl err'"
    using assms(1,2) j(3) by (simp add: getWalletBalance_def ps_def)
  have jlen: "j < length addresses" using j(1) by (simp add: ps_def)
  have failed: "getBalanceForAddress
                \<lparr>gba_chain = chain, gba_network = gwb_network params,
                 gba_address = wa_address (addresses ! j), gba_args = gwb_args params\<rparr> = Inl err'"
    using j(2) jlen by (simp add: ps_def)
  have same: "getWalletBalance chain getWalletAddresses getBalanceForAddress settled params =
                Inl err"
    if others: "\<forall>k<length addresses. k \<noteq> i \<longrightarrow> (\<exists>b. getBalanceForAddress
                  \<lparr>gba_chain = chain, gba_network = gwb_network params,
                   gba_address = wa_address (addresses ! k), gba_args = gwb_args params\<rparr> = Inr b)"
  proof -
    have "j = i" using others failed jlen by (cases "j = i") auto
    then have "err' = err" using failed assms(4) by simp
    then show ?thesis using res by simp
  qed
  have first: "getWalletBalance chain getWalletAddresses getBalanceForAddress settled params =
                Inl err"
    if order: "settled = pre @ i # post"
      and before: "\<forall>k\<in>set pre. k < length addresses \<longrightarrow> (\<exists>b. getBalanceForAddress
                  \<lparr>gba_chain = chain, gba_network = gwb_network params,
                   gba_address = wa_address (addresses ! k), gba_args = gwb_args params\<rparr> = Inr b)"
    for pre post
  proof -
    have "\<forall>k\<in>set pre. k < length ps \<longrightarrow> \<not> isl (ps ! k)"
      using before by (auto simp: ps_def)
    with order i have "Promise_all settled ps = Inl err" by (rule Promise_all_first_settled)
    then show ?thesis using assms(1,2) by (simp add: getWalletBalance_def ps_def)
  qed
  show ?thesis using jlen failed res same first by blast
qed

theorem getWalletBalance_lookup_failure_witness:
  "getWalletBalance ''ETH''
      (\<lambda>wid. Inr [sample_address ''0xa'', sample_address ''0xc'', sample_address ''0xb''])
      sample_balances [2, 0, 1] (balance_params (Some ''w1'')) =
     Inl (Error ''no balance for 0xc'' None)
   \<and> getWalletBalance ''ETH''
      (\<lambda>wid. Inr [sample_address ''0xa'', sample_address ''0xc'', sample_address ''0xd''])
      sample_balances [2, 0, 1] (balance_params (Some ''w1'')) =
     Inl (Error ''no balance for 0xd'' None)"
  using getWalletBalance_lookup_failure [where params = "balance_params (Some ''w1'')"
      and wid = "''w1''" and chain = "''ETH''" and i = 1 and settled = "[2, 0, 1]"
      and getWalletAddresses =
        "\<lambda>wid. Inr [sample_address ''0xa'', sample_address ''0xc'', sample_address ''0xb'']"
      and addresses = "[sample_address ''0xa'', sample_address ''0xc'', sample_address ''0xb'']"
      and getBalanceForAddress = sample_balances and err = "Error ''no balance for 0xc'' None"]
    getWalletBalance_lookup_failure [where params = "balance_params (Some ''w1'')"
      and wid = "''w1''" and chain = "''ETH''" and i = 2 and settled = "[2, 0, 1]"
      and getWalletAddresses =
        "\<lambda>wid. Inr [sample_address ''0xa'', sample_address ''0xc'', sample_address ''0xd'']"
      and addresses = "[sample_address ''0xa'', sample_address ''0xc'', sample_address ''0xd'']"
      and getBalanceForAddress = sample_balances and err = "Error ''no balance for 0xd'' None"]
  by (simp add: balance_params_def sample_address_def sample_balances_def All_less_Suc
      Cons_eq_append_conv)


section \<open>Properties of the broadcast\<close>

lemma broadcast_loop_hashes:
  "broadcast_loop (\<lambda>tx node. (Inr (hash tx), accept tx node)) rawTxs txids node =
     (Inr (txids @ map hash rawTxs), foldl (\<lambda>n tx. accept tx n) node rawTxs)"
  by (induction rawTxs arbitrary: txids node) simp_all

text \<open>
  Claim C10: a list of exactly one raw transaction gives what the plain string
  gives; when the node answers every raw transaction with its hash, that is the
  single hash, and a list of two or more gives the list of hashes in input order.
\<close>

theorem broadcastTransaction_result_shape:
  "broadcastTransaction send (RawTxs [tx]) node = broadcastTransaction send (RawTx tx) node
   \<and> broadcastTransaction (\<lambda>tx node. (Inr (hash tx), accept tx node)) (RawTxs [tx]) node =
       (Inr (TxId (hash tx)), accept tx node)
   \<and> (2 \<le> length rawTxs \<longrightarrow>
        broadcastTransaction (\<lambda>tx node. (Inr (hash tx), accept tx node)) (RawTxs rawTxs) node =
          (Inr (TxIds (map hash rawTxs)), foldl (\<lambda>n tx. accept tx n) node rawTxs))"
  by (simp add: broadcastTransaction_def broadcast_loop_hashes)

theorem broadcastTransaction_result_shape_witness:
  "broadcastTransaction sample_send (RawTxs [''a'', ''b'']) [] =
     (Inr (TxIds [''hash:a'', ''hash:b'']), [''a'', ''b''])
   \<and> broadcastTransaction sample_send (RawTxs [''a'']) [] = (Inr (TxId ''hash:a''), [''a''])
   \<and> broadcastTransaction sample_send (RawTx ''a'') [] = (Inr (TxId ''hash:a''), [''a''])"
  using broadcastTransaction_result_shape [where rawTxs = "[''a'', ''b'']" and node = "[]"
      and hash = "\<lambda>tx. ''hash:'' @ tx" and accept = "\<lambda>tx node. node @ [tx]" and tx = "''a''"
      and send = sample_send]
  by (auto simp: sample_send_def)

section \<open>Properties of the wallet registration\<close>

subsection \<open>One address batch\<close>

lemma updateMany_error:
  "fst (updateMany fault matches update collection) = Some err \<longleftrightarrow> (\<exists>written. fault = Some (err, written))"
  by (auto simp: updateMany_def split: option.splits)

lemma updateMany_no_fault:
  "updateMany None matches update collection =
     (None, map (\<lambda>doc. if matches doc then update doc else doc) collection)"
  by (simp add: updateMany_def)

lemma updateWallet_batch_no_error:
  assumes "\<And>docs coll err. fst (bulkWrite docs coll) = Some err \<Longrightarrow> err_code err = Some 11000"
    and "\<And>b c. txFault b c = None" "\<And>b c. waFault b c = None"
  shows "fst (updateWallet_batch bulkWrite txFault waFault params addressBatch d) = None"
proof -
  let ?inserts = "map (\<lambda>address. \<lparr>wa_chain = uw_chain params, wa_network = uw_network params,
                                    wa_wallet = uw_wallet_id params, wa_address = address,
                                    wa_processed = False\<rparr>) addressBatch"
  obtain thrown was where bw: "bulkWrite ?inserts (walletAddresses d) = (thrown, was)"
    by (cases "bulkWrite ?inserts (walletAddresses d)") auto
  have "thrown = None \<or> (\<exists>err. thrown = Some err \<and> err_code err = Some 11000)"
    using assms(1)[of ?inserts "walletAddresses d"] bw by (cases thrown) auto
  then show ?thesis
    by (auto simp: updateWallet_batch_def Let_def bw assms(2,3) updateMany_no_fault)
qed

lemma updateWallet_batch_error:
  assumes "fst (updateWallet_batch bulkWrite txFault waFault params addressBatch d) = Some err"
  shows "(err_code err \<noteq> Some 11000 \<and> (\<exists>docs coll. fst (bulkWrite docs coll) = Some err))
         \<or> (\<exists>b c written. txFault b c = Some (err, written))
         \<or> (\<exists>b c written. waFault b c = Some (err, written))"
proof -
  let ?inserts = "map (\<lambda>address. \<lparr>wa_chain = uw_chain params, wa_network = uw_network params,
                                    wa_wallet = uw_wallet_id params, wa_address = address,
                                    wa_processed = False\<rparr>) addressBatch"
  obtain thrown was where bw: "bulkWrite ?inserts (walletAddresses d) = (thrown, was)"
    by (cases "bulkWrite ?inserts (walletAddresses d)") auto
  show ?thesis
  proof (cases "\<exists>e. thrown = Some e \<and> err_code e \<noteq> Some 11000")
    case True
    then obtain e where e: "thrown = Some e" "err_code e \<noteq> Some 11000" by blast
    then have "err = e" using assms by (simp add: updateWallet_batch_def Let_def bw)
    moreover have "fst (bulkWrite ?inserts (walletAddresses d)) = Some e" using bw e by simp
    ultimately show ?thesis using e(2) by blast
  next
    case False
    then have ok: "(case thrown of None \<Rightarrow> None
                    | Some err \<Rightarrow> if err_code err \<noteq> Some 11000 then Some err else None) = None"
      by (cases thrown) auto
    let ?txf = "txFault addressBatch (transactions (d\<lparr>walletAddresses := was\<rparr>))"
    show ?thesis
    proof (cases ?txf)
      case (Some a)
      then obtain e w where a: "?txf = Some (e, w)" by (cases a) auto
      then have "err = e"
        using assms by (simp add: updateWallet_batch_def Let_def bw ok updateMany_def)
      then show ?thesis using a by blast
    next
      case None
      then have "fst (updateMany
                   (waFault addressBatch
                      (walletAddresses
                         (d\<lparr>walletAddresses := was,
                            transactions :=
                              snd (updateMany None
                                (matches_wallet_query (uw_chain params) (uw_network params)
                                   addressBatch (map toLowerCase addressBatch))
                                (addToSet_wallets (uw_wallet_id params))
                                (transactions (d\<lparr>walletAddresses := was\<rparr>)))\<rparr>)))
                   (\<lambda>wa. wa_chain wa = uw_chain params \<and> wa_network wa = uw_network params \<and>
                          wa_address wa \<in> set addressBatch \<and> wa_wallet wa = uw_wallet_id params)
                   (\<lambda>wa. wa\<lparr>wa_processed := True\<rparr>) was) = Some err"
        using assms
        by (simp add: updateWallet_batch_def Let_def bw ok updateMany_no_fault split: prod.splits)
      then show ?thesis unfolding updateMany_error by blast
    qed
  qed
qed

lemma updateWallet_batch_bulkWrite_error:
  assumes "fst (bulkWrite
                  (map (\<lambda>address. \<lparr>wa_chain = uw_chain params, wa_network = uw_network params,
                                     wa_wallet = uw_wallet_id params, wa_address = address,
                                     wa_processed = False\<rparr>) addressBatch)
                  (walletAddresses d)) = Some err"
    and "err_code err \<noteq> Some 11000"
  shows "fst (updateWallet_batch bulkWrite txFault waFault params addressBatch d) = Some err"
  using assms by (auto simp: updateWallet_batch_def Let_def split: prod.splits)

lemma updateWallet_batch_updateMany_error:
  assumes "fst (bulkWrite
                  (map (\<lambda>address. \<lparr>wa_chain = uw_chain params, wa_network = uw_network params,
                                     wa_wallet = uw_wallet_id params, wa_address = address,
                                     wa_processed = False\<rparr>) addressBatch)
                  (walletAddresses d)) = thrown"
    and "thrown = None \<or> (\<exists>e. thrown = Some e \<and> err_code e = Some 11000)"
    and "txFault addressBatch (transactions d) = Some (err, written)"
  shows "fst (updateWallet_batch bulkWrite txFault waFault params addressBatch d) = Some err"
  using assms by (auto simp: updateWallet_batch_def Let_def updateMany_def split: prod.splits)

lemma updateWallet_batch_transactions:
  assumes "list_all2 (\<lambda>t t'. t' = t \<or> (uw_wallet_id params \<notin> set (tx_wallets t) \<and>
                         t' = t\<lparr>tx_wallets := tx_wallets t @ [uw_wallet_id params]\<rparr>))
             txs (transactions d)"
  shows "list_all2 (\<lambda>t t'. t' = t \<or> (uw_wallet_id params \<notin> set (tx_wallets t) \<and>
                         t' = t\<lparr>tx_wallets := tx_wallets t @ [uw_wallet_id params]\<rparr>))
             txs (transactions (snd (updateWallet_batch bulkWrite txFault waFault params
                                       addressBatch d)))"
proof -
  let ?R = "\<lambda>t t'. t' = t \<or> (uw_wallet_id params \<notin> set (tx_wallets t) \<and>
                         t' = t\<lparr>tx_wallets := tx_wallets t @ [uw_wallet_id params]\<rparr>)"
  have upd: "list_all2 ?R txs (snd (updateMany fault matches
                                       (addToSet_wallets (uw_wallet_id params)) (transactions d)))"
    for fault matches
    unfolding updateMany_def
    by (cases fault)
       (auto simp: list_all2_map2 addToSet_wallets_def split: prod.splits
             intro!: list_all2_mono[OF assms])
  have "transactions (snd (updateWallet_batch bulkWrite txFault waFault params addressBatch d))
          = transactions d
        \<or> transactions (snd (updateWallet_batch bulkWrite txFault waFault params addressBatch d))
          = snd (updateMany (txFault addressBatch (transactions d))
                   (matches_wallet_query (uw_chain params) (uw_network params)
                      addressBatch (map toLowerCase addressBatch))
                   (addToSet_wallets (uw_wallet_id params)) (transactions d))"
    by (auto simp: updateWallet_batch_def Let_def split: prod.splits option.splits)
  then show ?thesis using assms upd by auto
qed


subsection \<open>The loop over the batches\<close>

lemma updateWallet_batches_no_error:
  assumes "\<And>docs coll err. fst (bulkWrite docs coll) = Some err \<Longrightarrow> err_code err = Some 11000"
    and "\<And>b c. txFault b c = None" "\<And>b c. waFault b c = None"
  shows "fst (updateWallet_batches bulkWrite txFault waFault params batches d) = Inr ()"
proof (induction batches arbitrary: d)
  case Nil
  show ?case by simp
next
  case (Cons b rest)
  have "fst (updateWallet_batch bulkWrite txFault waFault params b d) = None"
    using assms by (rule updateWallet_batch_no_error)
  then show ?case
    using Cons.IH by (cases "updateWallet_batch bulkWrite txFault waFault params b d") simp
qed

lemma updateWallet_batches_error:
  assumes "fst (updateWallet_batches bulkWrite txFault waFault params batches d) = Inl err"
  shows "(err_code err \<noteq> Some 11000 \<and> (\<exists>docs coll. fst (bulkWrite docs coll) = Some err))
         \<or> (\<exists>b c written. txFault b c = Some (err, written))
         \<or> (\<exists>b c written. waFault b c = Some (err, written))"
  using assms
proof (induction batches arbitrary: d)
  case Nil
  then show ?case by simp
next
  case (Cons b rest)
  obtain thrown d' where step: "updateWallet_batch bulkWrite txFault waFault params b d = (thrown, d')"
    by (cases "updateWallet_batch bulkWrite txFault waFault params b d") auto
  show ?case
  proof (cases thrown)
    case None
    then have "fst (updateWallet_batches bulkWrite txFault waFault params rest d') = Inl err"
      using Cons.prems step by simp
    then show ?thesis by (rule Cons.IH)
  next
    case (Some e)
    then have "e = err" using Cons.prems step by simp
    then have "fst (updateWallet_batch bulkWrite txFault waFault params b d) = Some err"
      using step Some by simp
    then show ?thesis by (rule updateWallet_batch_error)
  qed
qed

lemma updateWallet_batches_transactions:
  assumes "list_all2 (\<lambda>t t'. t' = t \<or> (uw_wallet_id params \<notin> set (tx_wallets t) \<and>
                         t' = t\<lparr>tx_wallets := tx_wallets t @ [uw_wallet_id params]\<rparr>))
             txs (transactions d)"
  shows "list_all2 (\<lambda>t t'. t' = t \<or> (uw_wallet_id params \<notin> set (tx_wallets t) \<and>
                         t' = t\<lparr>tx_wallets := tx_wallets t @ [uw_wallet_id params]\<rparr>))
             txs (transactions (snd (updateWallet_batches bulkWrite txFault waFault params
                                       batches d)))"
  using assms
proof (induction batches arbitrary: d)
  case Nil
  then show ?case by simp
next
  case (Cons b rest)
  obtain thrown d' where step: "updateWallet_batch bulkWrite txFault waFault params b d = (thrown, d')"
    by (cases "updateWallet_batch bulkWrite txFault waFault params b d") auto
  have d': "list_all2 (\<lambda>t t'. t' = t \<or> (uw_wallet_id params \<notin> set (tx_wallets t) \<and>
                         t' = t\<lparr>tx_wallets := tx_wallets t @ [uw_wallet_id params]\<rparr>))
             txs (transactions d')"
    using updateWallet_batch_transactions[OF Cons.prems, of bulkWrite txFault waFault b] step
    by simp
  show ?case
  proof (cases thrown)
    case None
    then show ?thesis using Cons.IH[OF d'] step by simp
  next
    case (Some e)
    then show ?thesis using d' step by simp
  qed
qed


text \<open>An error thrown for a batch after batches that threw none is the error of the call.\<close>

lemma updateWallet_batches_append:
  assumes "updateWallet_batches bulkWrite txFault waFault params before d = (Inr (), d')"
  shows "updateWallet_batches bulkWrite txFault waFault params (before @ rest) d =
         updateWallet_batches bulkWrite txFault waFault params rest d'"
  using assms
proof (induction before arbitrary: d)
  case Nil
  then show ?case by simp
next
  case (Cons b before)
  then show ?case
    by (cases "updateWallet_batch bulkWrite txFault waFault params b d")
       (auto split: option.splits)
qed

lemma updateWallet_error_propagates:
  assumes "partition_fn (uw_addresses params) 500 = before @ b # rest"
    and "updateWallet_batches bulkWrite txFault waFault params before d = (Inr (), d')"
    and "fst (updateWallet_batch bulkWrite txFault waFault params b d') = Some err"
  shows "fst (updateWallet partition_fn bulkWrite txFault waFault params d) = Inl err"
  using assms
  by (cases "updateWallet_batch bulkWrite txFault waFault params b d'")
     (simp add: updateWallet_def updateWallet_batches_append Let_def)


text \<open>
  Claim C9: when the bulk write of the wallet addresses throws nothing but
  duplicate-key errors (code 11000) and the two \<^verbatim>\<open>updateMany\<close> writes complete,
  \<^verbatim>\<open>updateWallet\<close> returns without an error. An error it throws is a bulk-write error
  of another code or the error of an \<^verbatim>\<open>updateMany\<close> that failed; for the first batch,
  a bulk-write error of another code is the one it throws, and so is the error of an
  \<^verbatim>\<open>updateMany\<close> that fails after a bulk write that threw nothing but a duplicate-key
  error. Whatever is thrown and however much was written before, the transaction
  collection keeps its length; a transaction whose wallets already hold the wallet id
  is left as it is, and no transaction ends with the id more than once unless it had
  it so before.
\<close>

theorem updateWallet_registration:
  "(let res = updateWallet partition_fn bulkWrite txFault waFault params d;
        wid = uw_wallet_id params
    in ((\<forall>docs coll err. fst (bulkWrite docs coll) = Some err \<longrightarrow> err_code err = Some 11000)
          \<and> (\<forall>b c. txFault b c = None) \<and> (\<forall>b c. waFault b c = None)
          \<longrightarrow> fst res = Inr ())
     \<and> (\<forall>err. fst res = Inl err \<longrightarrow>
           (err_code err \<noteq> Some 11000 \<and> (\<exists>docs coll. fst (bulkWrite docs coll) = Some err))
           \<or> (\<exists>b c written. txFault b c = Some (err, written))
           \<or> (\<exists>b c written. waFault b c = Some (err, written)))
     \<and> (\<forall>b rest err.
           partition_fn (uw_addresses params) 500 = b # rest \<and>
           fst (bulkWrite
                  (map (\<lambda>address. \<lparr>wa_chain = uw_chain params, wa_network = uw_network params,
                                     wa_wallet = wid, wa_address = address,
                                     wa_processed = False\<rparr>) b)
                  (walletAddresses d)) = Some err \<and>
           err_code err \<noteq> Some 11000 \<longrightarrow> fst res = Inl err)
     \<and> (\<forall>b rest err inserts.
           partition_fn (uw_addresses params) 500 = b # rest \<and>
           inserts = map (\<lambda>address. \<lparr>wa_chain = uw_chain params,
                                         wa_network = uw_network params,
                                         wa_wallet = wid, wa_address = address,
                                         wa_processed = False\<rparr>) b \<and>
           (\<forall>e. fst (bulkWrite inserts (walletAddresses d)) = Some e \<longrightarrow>
                err_code e = Some 11000) \<and>
           ((\<exists>written. txFault b (transactions d) = Some (err, written))
            \<or> (txFault b (transactions d) = None \<and>
               (\<exists>written. waFault b (snd (bulkWrite inserts (walletAddresses d))) =
                            Some (err, written)))) \<longrightarrow> fst res = Inl err)
     \<and> length (transactions (snd res)) = length (transactions d)
     \<and> (\<forall>i<length (transactions d).
           (wid \<in> set (tx_wallets (transactions d ! i)) \<longrightarrow>
              transactions (snd res) ! i = transactions d ! i)
           \<and> count_list (tx_wallets (transactions (snd res) ! i)) wid
               \<le> max 1 (count_list (tx_wallets (transactions d ! i)) wid)))"
proof -
  let ?batches = "partition_fn (uw_addresses params) 500"
  let ?res = "updateWallet_batches bulkWrite txFault waFault params ?batches d"
  let ?wid = "uw_wallet_id params"
  let ?R = "\<lambda>t t'. t' = t \<or> (?wid \<notin> set (tx_wallets t) \<and>
                         t' = t\<lparr>tx_wallets := tx_wallets t @ [?wid]\<rparr>)"
  let ?ins = "\<lambda>b. map (\<lambda>address. \<lparr>wa_chain = uw_chain params, wa_network = uw_network params,
                                     wa_wallet = ?wid, wa_address = address,
                                     wa_processed = False\<rparr>) b"
  have res: "updateWallet partition_fn bulkWrite txFault waFault params d = ?res"
    by (simp add: updateWallet_def)
  have ok: "(\<forall>docs coll err. fst (bulkWrite docs coll) = Some err \<longrightarrow> err_code err = Some 11000)
          \<and> (\<forall>b c. txFault b c = None) \<and> (\<forall>b c. waFault b c = None)
          \<longrightarrow> fst ?res = Inr ()"
    using updateWallet_batches_no_error[of bulkWrite txFault waFault params ?batches d] by blast
  have err: "\<forall>err. fst ?res = Inl err \<longrightarrow>
           (err_code err \<noteq> Some 11000 \<and> (\<exists>docs coll. fst (bulkWrite docs coll) = Some err))
           \<or> (\<exists>b c written. txFault b c = Some (err, written))
           \<or> (\<exists>b c written. waFault b c = Some (err, written))"
    using updateWallet_batches_error[of bulkWrite txFault waFault params ?batches d] by blast
  have first: "fst ?res = Inl err"
    if "?batches = b # rest"
      and "fst (updateWallet_batch bulkWrite txFault waFault params b d) = Some err"
    for b rest err
    using that
    by (cases "updateWallet_batch bulkWrite txFault waFault params b d") simp
  have propagates: "\<forall>b rest err.
           ?batches = b # rest \<and> fst (bulkWrite (?ins b) (walletAddresses d)) = Some err \<and>
           err_code err \<noteq> Some 11000 \<longrightarrow> fst ?res = Inl err"
    using first updateWallet_batch_bulkWrite_error by blast
  have propagates2: "\<forall>b rest err inserts.
           ?batches = b # rest \<and> inserts = ?ins b \<and>
           (\<forall>e. fst (bulkWrite inserts (walletAddresses d)) = Some e \<longrightarrow>
                err_code e = Some 11000) \<and>
           ((\<exists>written. txFault b (transactions d) = Some (err, written))
            \<or> (txFault b (transactions d) = None \<and>
               (\<exists>written. waFault b (snd (bulkWrite inserts (walletAddresses d))) =
                            Some (err, written)))) \<longrightarrow> fst ?res = Inl err"
  proof (intro allI impI, elim conjE)
    fix b rest err inserts
    assume b: "?batches = b # rest"
      and ins: "inserts = ?ins b"
      and dup: "\<forall>e. fst (bulkWrite inserts (walletAddresses d)) = Some e \<longrightarrow>
                    err_code e = Some 11000"
      and fault: "(\<exists>written. txFault b (transactions d) = Some (err, written))
            \<or> (txFault b (transactions d) = None \<and>
               (\<exists>written. waFault b (snd (bulkWrite inserts (walletAddresses d))) =
                            Some (err, written)))"
    have "fst (updateWallet_batch bulkWrite txFault waFault params b d) = Some err"
      using dup fault unfolding ins
      by (auto simp: updateWallet_batch_def Let_def updateMany_def split: prod.splits option.splits)
    then show "fst ?res = Inl err" using first[OF b] by blast
  qed
  have "list_all2 ?R (transactions d) (transactions d)"
    by (simp add: list_all2_same)
  then have rel: "list_all2 ?R (transactions d) (transactions (snd ?res))"
    by (rule updateWallet_batches_transactions)
  then have len: "length (transactions (snd ?res)) = length (transactions d)"
    by (simp add: list_all2_lengthD)
  have each: "\<forall>i<length (transactions d).
           (?wid \<in> set (tx_wallets (transactions d ! i)) \<longrightarrow>
              transactions (snd ?res) ! i = transactions d ! i)
           \<and> count_list (tx_wallets (transactions (snd ?res) ! i)) ?wid
               \<le> max 1 (count_list (tx_wallets (transactions d ! i)) ?wid)"
  proof (intro allI impI)
    fix i assume i: "i < length (transactions d)"
    from list_all2_nthD[OF rel i]
    have "?R (transactions d ! i) (transactions (snd ?res) ! i)" .
    then show "(?wid \<in> set (tx_wallets (transactions d ! i)) \<longrightarrow>
              transactions (snd ?res) ! i = transactions d ! i)
           \<and> count_list (tx_wallets (transactions (snd ?res) ! i)) ?wid
               \<le> max 1 (count_list (tx_wallets (transactions d ! i)) ?wid)"
      by (auto simp: count_list_append count_list_0_iff)
  qed
  show ?thesis
    unfolding Let_def res using ok err propagates propagates2 len each by blast
qed

theorem updateWallet_registration_witness:
  "fst (updateWallet one_batch unique_insert no_fault no_fault register_params
          \<lparr>walletAddresses = [], transactions = [sample_tx ''0xa'' ''0xb'' []]\<rparr>) = Inr ()
   \<and> snd (updateWallet one_batch unique_insert no_fault no_fault register_params
          \<lparr>walletAddresses = [], transactions = [sample_tx ''0xa'' ''0xb'' []]\<rparr>) = registered_db
   \<and> updateWallet one_batch unique_insert no_fault no_fault register_params registered_db =
       (Inr (), registered_db)
   \<and> fst (updateWallet one_batch failing_insert no_fault no_fault register_params registered_db) =
       Inl (Error ''not primary'' (Some 10107))
   \<and> updateWallet one_batch unique_insert tx_write_fails no_fault register_params registered_db =
       (Inl (Error ''connection closed'' None), registered_db)"
  using updateWallet_registration
          [of one_batch unique_insert no_fault no_fault register_params registered_db]
    updateWallet_registration
          [of one_batch failing_insert no_fault no_fault register_params registered_db]
    updateWallet_registration
          [of one_batch unique_insert tx_write_fails no_fault register_params registered_db]
  by (simp add: updateWallet_def updateWallet_batches.simps(2) updateWallet_batch_def
      updateMany_def no_fault_def tx_write_fails_def one_batch_def unique_insert_def
      failing_insert_def register_params_def registered_db_def sample_tx_def Let_def
      matches_wallet_query_def addToSet_wallets_def toLowerCase_def lower_char_def)

end
